theory Spec2Isabelle
  imports Complex_Main
begin

section \<open>Strings\<close>

text \<open>
  Python strings are modelled as \<open>string\<close> (a list of 8-bit characters); the operations
  below are the ASCII behaviour of \<open>str.lower\<close>, \<open>str.strip\<close>, \<open>str.lstrip("/")\<close>,
  \<open>in\<close> on strings and \<open>str.rsplit(".", 1)\<close>.
\<close>

definition lower_char :: "char \<Rightarrow> char" where
  "lower_char c =
     (case map_of (zip ''ABCDEFGHIJKLMNOPQRSTUVWXYZ'' ''abcdefghijklmnopqrstuvwxyz'') c of
        Some l \<Rightarrow> l
      | None \<Rightarrow> c)"

definition lower :: "string \<Rightarrow> string" where
  "lower s = map lower_char s"

text \<open>The ASCII characters for which \<open>str.isspace\<close> holds: codes 9 to 13, 28 to 31, 32.\<close>

definition isspace :: "char \<Rightarrow> bool" where
  "isspace c = (of_char c \<in> {9, 10, 11, 12, 13, 28, 29, 30, 31, 32 :: nat})"

definition strip :: "string \<Rightarrow> string" where
  "strip s = rev (dropWhile isspace (rev (dropWhile isspace s)))"

definition lstrip_slash :: "string \<Rightarrow> string" where
  "lstrip_slash s = dropWhile (\<lambda>c. c = CHR ''/'') s"

fun startswith :: "string \<Rightarrow> string \<Rightarrow> bool" where
  "startswith s [] = True"
| "startswith [] (p # ps) = False"
| "startswith (c # cs) (p # ps) = (c = p \<and> startswith cs ps)"

text \<open>\<open>contains s sub\<close> is Python's \<open>sub in s\<close>.\<close>

fun contains :: "string \<Rightarrow> string \<Rightarrow> bool" where
  "contains [] sub = (sub = [])"
| "contains (c # cs) sub = (startswith (c # cs) sub \<or> contains cs sub)"

text \<open>\<open>s.rsplit(".", 1)[-1]\<close>: what follows the last dot (all of \<open>s\<close> when it has none).\<close>

definition rsplit_last :: "string \<Rightarrow> string" where
  "rsplit_last s = rev (takeWhile (\<lambda>c. c \<noteq> CHR ''.'') (rev s))"

text \<open>\<open>s.rsplit(".", 1)[0]\<close>: what precedes the last dot (all of \<open>s\<close> when it has none).\<close>

definition rsplit_first :: "string \<Rightarrow> string" where
  "rsplit_first s =
     (if CHR ''.'' \<in> set s then rev (tl (dropWhile (\<lambda>c. c \<noteq> CHR ''.'') (rev s))) else s)"

text \<open>
  The expression of lines 167 and 236:
  \<open>filename.rsplit(".", 1)[-1].lower() if "." in filename else ""\<close>.
\<close>

definition extension :: "string \<Rightarrow> string" where
  "extension filename =
     (if CHR ''.'' \<in> set filename then lower (rsplit_last filename) else '''')"

section \<open>Configuration and helpers\<close>

definition ALLOWED_EXT :: "string set" where
  "ALLOWED_EXT = {''png'', ''jpg'', ''jpeg'', ''gif'', ''webp''}"

definition allowed_file :: "string \<Rightarrow> bool" where
  "allowed_file filename = (extension filename \<in> ALLOWED_EXT)"

text \<open>\<open>os.path.join\<close> and \<open>os.path.basename\<close> of \<open>posixpath\<close>, on two components.\<close>

definition path_join :: "string \<Rightarrow> string \<Rightarrow> string" where
  "path_join a b =
     (if startswith b ''/'' then b
      else if a = '''' \<or> last a = CHR ''/'' then a @ b
      else a @ ''/'' @ b)"

definition basename :: "string \<Rightarrow> string" where
  "basename p = rev (takeWhile (\<lambda>c. c \<noteq> CHR ''/'') (rev p))"

section \<open>Rounding\<close>

text \<open>
  Python floats are modelled as real numbers with exact arithmetic. \<open>round(x, n)\<close> rounds
  to \<open>n\<close> decimal places, a tie going to the even neighbour.
\<close>

definition round_half_even :: "real \<Rightarrow> int" where
  "round_half_even x =
     (let f = \<lfloor>x\<rfloor>; d = x - of_int f in
      if d < 1 / 2 then f
      else if 1 / 2 < d then f + 1
      else if even f then f else f + 1)"

definition py_round :: "real \<Rightarrow> nat \<Rightarrow> real" where
  "py_round x n = of_int (round_half_even (x * 10 ^ n)) / 10 ^ n"

section \<open>Storage layer\<close>

text \<open>
  The table \<open>predictions\<close> (class \<open>Prediction\<close>, lines 64 to 75). The columns that
  \<open>insert_prediction\<close> always writes are modelled as present; \<open>true_label\<close> is
  nullable and no code of the module writes it. Equality of strings is exact.
\<close>

record prediction =
  id' :: nat
  scan_id :: string
  patient_name :: string
  label :: string
  confidence :: real
  inference_time :: real
  image_path :: string
  timestamp :: nat
  true_label :: "string option"

text \<open>
  The database: the rows in insertion order and the next value of the auto-increment
  counter of the primary key.
\<close>

record db =
  rows :: "prediction list"
  next_id :: nat

definition empty_db :: db where
  "empty_db = \<lparr>rows = [], next_id = 1\<rparr>"

datatype error = OperationalError | MultipleResultsFound | ProgrammingError | ValueError

text \<open>
  \<open>insert_prediction\<close> (lines 81 to 108). \<open>fault\<close> says that the session fails (the
  server is unreachable, the commit is refused): the transaction is rolled back, so the
  table is unchanged, and the error is raised again. \<open>utcnow\<close> is the value of
  \<open>datetime.utcnow()\<close>, \<open>current_timestamp\<close> the server's clock, which fills the
  \<open>timestamp\<close> column of a new row (its \<open>server_default\<close>). \<open>one_or_none()\<close> raises
  \<open>MultipleResultsFound\<close> when more than one row matches.
\<close>

definition insert_prediction ::
  "bool \<Rightarrow> nat \<Rightarrow> nat \<Rightarrow> db \<Rightarrow> string \<Rightarrow> string \<Rightarrow> string \<Rightarrow> real \<Rightarrow> real \<Rightarrow> string
     \<Rightarrow> error + db" where
  "insert_prediction fault utcnow current_timestamp d sid pname lbl conf itime ipath =
     (if fault then Inl OperationalError
      else case filter (\<lambda>r. scan_id r = sid) (rows d) of
        [] \<Rightarrow>
          Inr (d\<lparr>rows := rows d @
                 [\<lparr>id' = next_id d, scan_id = sid, patient_name = pname, label = lbl,
                   confidence = conf, inference_time = itime, image_path = ipath,
                   timestamp = current_timestamp, true_label = None\<rparr>],
               next_id := Suc (next_id d)\<rparr>)
      | [obj] \<Rightarrow>
          Inr (d\<lparr>rows := map (\<lambda>r. if scan_id r = sid
                 then r\<lparr>patient_name := pname, label := lbl, confidence := conf,
                        inference_time := itime, image_path := ipath, timestamp := utcnow\<rparr>
                 else r) (rows d)\<rparr>)
      | _ \<Rightarrow> Inl MultipleResultsFound)"

text \<open>A sequence of calls of \<open>insert_prediction\<close>, each with its own arguments, clock
  values and fault; a call that raises leaves the table as it was.\<close>

record upsert_call =
  u_fault :: bool
  u_utcnow :: nat
  u_current_timestamp :: nat
  u_scan_id :: string
  u_patient_name :: string
  u_label :: string
  u_confidence :: real
  u_inference_time :: real
  u_image_path :: string

definition upsert :: "db \<Rightarrow> upsert_call \<Rightarrow> error + db" where
  "upsert d c =
     insert_prediction (u_fault c) (u_utcnow c) (u_current_timestamp c) d (u_scan_id c)
       (u_patient_name c) (u_label c) (u_confidence c) (u_inference_time c) (u_image_path c)"

fun run_upserts :: "db \<Rightarrow> upsert_call list \<Rightarrow> db" where
  "run_upserts d [] = d"
| "run_upserts d (c # cs) =
     run_upserts (case upsert d c of Inl e \<Rightarrow> d | Inr d' \<Rightarrow> d') cs"

text \<open>SQL's \<open>AVG\<close>: \<open>NULL\<close> over no rows.\<close>

definition sql_avg :: "real list \<Rightarrow> real option" where
  "sql_avg xs = (if xs = [] then None else Some (sum_list xs / real (length xs)))"

text \<open>
  The query of line 119. Its expression is built by \<open>func.case(..., else_=0.0)\<close>:
  \<open>func\<close> is SQLAlchemy's generator of calls of SQL functions by name, not the \<open>case\<close>
  construct (which line 14 does not import). SQLAlchemy 2 refuses the keyword \<open>else_\<close>
  when the expression is built; SQLAlchemy 1.4 sends MySQL a call of a function named
  \<open>case\<close> on a bound list, which MySQL rejects. Either way the statement raises, whatever
  the rows are.
\<close>

definition correct_avg_query :: "prediction list \<Rightarrow> error + real option" where
  "correct_avg_query rs = Inl ProgrammingError"

record stats =
  total_scans :: int
  fractures :: int
  avg_latency :: "real option"
  model_accuracy :: "real option"
  labelled_count :: int

text \<open>\<open>query_stats\<close> (lines 110 to 130); \<open>fault\<close> as above.\<close>

definition query_stats :: "bool \<Rightarrow> db \<Rightarrow> error + stats" where
  "query_stats fault d =
     (if fault then Inl OperationalError
      else
        let total = length (rows d);
            fractured = length (filter (\<lambda>r. label r = ''Fractured'') (rows d));
            avg_lat = sql_avg (map inference_time (rows d));
            labelled = length (filter (\<lambda>r. true_label r \<noteq> None) (rows d))
        in case (if 0 < labelled
                 then (case correct_avg_query (rows d) of
                         Inl e \<Rightarrow> Inl e
                       | Inr None \<Rightarrow> Inr None
                       | Inr (Some correct_avg) \<Rightarrow> Inr (Some (correct_avg * 100)))
                 else Inr None) of
             Inl e \<Rightarrow> Inl e
           | Inr accuracy \<Rightarrow>
               Inr \<lparr>total_scans = int total, fractures = int fractured,
                    avg_latency = avg_lat,
                    model_accuracy = map_option (\<lambda>a. py_round a 2) accuracy,
                    labelled_count = int labelled\<rparr>)"

text \<open>
  One entry of the list \<open>query_recent\<close> returns: the seven keys of lines 139 to 145
  (the primary key is not among them). \<open>e_timestamp\<close> stands for the ISO rendering of
  the row's timestamp.
\<close>

record entry =
  e_scan_id :: string
  e_patient_name :: string
  e_label :: string
  e_confidence :: real
  e_inference_time :: real
  e_image_path :: string
  e_timestamp :: nat

definition to_entry :: "prediction \<Rightarrow> entry" where
  "to_entry r =
     \<lparr>e_scan_id = scan_id r, e_patient_name = patient_name r, e_label = label r,
      e_confidence = confidence r, e_inference_time = inference_time r,
      e_image_path = image_path r, e_timestamp = timestamp r\<rparr>"

text \<open>\<open>order_by(Prediction.id.desc())\<close>.\<close>

definition order_by_id_desc :: "prediction list \<Rightarrow> prediction list" where
  "order_by_id_desc rs = rev (sort_key id' rs)"

text \<open>
  The rows \<open>query_recent\<close> reads, \<open>order_by(Prediction.id.desc()).limit(limit).all()\<close>,
  and \<open>query_recent\<close> itself (lines 132 to 149), which puts no test on \<open>limit\<close>. \<open>fault\<close>
  says that the statement raises, whatever the reason: the session fails, or the server
  refuses the statement. Otherwise the server answers with the first \<open>limit\<close> rows of the
  ordered table. What the server does with a negative \<open>limit\<close> is not in the source; the
  theorems below take \<open>limit\<close> from 0 on.
\<close>

definition recent_rows :: "db \<Rightarrow> int \<Rightarrow> prediction list" where
  "recent_rows d limit = take (nat limit) (order_by_id_desc (rows d))"

definition query_recent :: "bool \<Rightarrow> db \<Rightarrow> int \<Rightarrow> error + entry list" where
  "query_recent fault d limit =
     (if fault then Inl OperationalError
      else Inr (map to_entry (recent_rows d limit)))"

section \<open>Requests, responses and the environment\<close>

text \<open>
  What \<open>predict\<close> reads of a request: the two headers of \<open>request_wants_json\<close>, the
  part \<open>file\<close> of \<open>request.files\<close> (its filename and its bytes) and the form field
  \<open>patient_name\<close>. \<open>None\<close> is an absent header, part or field.
\<close>

record request =
  hdr_accept :: "string option"
  hdr_x_requested_with :: "string option"
  file_part :: "(string \<times> string) option"
  form_patient_name :: "string option"

text \<open>The keys of the JSON object of lines 290 to 298.\<close>

record result =
  r_id :: string
  r_label :: string
  r_confidence :: real
  r_confidence_pct :: real
  r_image_path :: string
  r_patient_name :: string
  r_inference_time :: real

text \<open>
  A response body: a JSON object with \<open>error\<close> and, where given, \<open>details\<close>; the JSON
  object of a prediction, of \<open>/api/stats\<close> or of \<open>/api/recent\<close>; the template
  \<open>dashboard.html\<close> rendered with \<open>error\<close>; the template \<open>result.html\<close> rendered with
  \<open>prediction\<close>, \<open>accuracy\<close>, \<open>image_path\<close>, \<open>doctor_note\<close>, \<open>current_date\<close> and
  \<open>patient_name\<close>. A response is a status and a body; Flask gives a view that returns no
  status the status 200.
\<close>

datatype body =
    Json_error string "string option"
  | Json_result result
  | Json_stats stats
  | Json_recent "entry list"
  | Dashboard string
  | Result_page string real string string string string

type_synonym response = "nat \<times> body"

text \<open>
  A file of the upload directory: the bytes of an upload as saved, or the PNG encoding
  of the image decoded from such bytes. The file system maps paths to files.
\<close>

datatype file_content = Uploaded string | Png string

type_synonym fs = "string \<Rightarrow> file_content option"

text \<open>
  What one call of \<open>predict\<close> takes from outside the module:
  \<^item> \<open>PROJECT_ROOT\<close>, the directory of the module;
  \<^item> \<open>secure_filename\<close>, the function of \<open>werkzeug.utils\<close>;
  \<^item> \<open>now_stamp\<close>, the value of \<open>datetime.now().strftime("%Y%m%d%H%M%S%f")\<close> at line 230,
    \<open>scan_stamp\<close> that of \<open>strftime('%y%m%d%H%M%S')\<close> at line 281 and \<open>current_date\<close>
    that of \<open>strftime("%B %d, %Y")\<close>;
  \<^item> \<open>save_raises\<close>: the message of the exception \<open>file.save\<close> raises, if it raises;
  \<^item> \<open>convert_raises\<close>: the message of the exception that decoding the upload or encoding
    the PNG raises (lines 239 to 243), if one does;
  \<^item> \<open>remove_raises\<close>: whether \<open>os.remove\<close> raises;
  \<^item> \<open>model\<close>: the loaded model, \<open>None\<close> in demo mode (lines 152 to 163 leave \<open>model\<close> at
    \<open>None\<close> whenever \<open>TF_AVAILABLE\<close> is false). A model maps the image file to the first
    output of \<open>model.predict\<close> on the preprocessed image, or to the message of the exception
    that \<open>preprocess_image\<close> or \<open>predict_from_model\<close> raises;
  \<^item> \<open>random_random\<close>, the draw of \<open>random.random()\<close> inside \<open>random.uniform\<close>;
  \<^item> \<open>time_t0\<close> and \<open>time_t1\<close>, the two readings of \<open>time.time()\<close>;
  \<^item> \<open>db_fault\<close>, \<open>utcnow\<close> and \<open>current_timestamp\<close>, as for \<open>insert_prediction\<close>.
\<close>

record env =
  PROJECT_ROOT :: string
  secure_filename :: "string \<Rightarrow> string"
  now_stamp :: string
  scan_stamp :: string
  current_date :: string
  save_raises :: "string option"
  convert_raises :: "string option"
  remove_raises :: bool
  model :: "(file_content \<Rightarrow> string + real) option"
  random_random :: real
  time_t0 :: real
  time_t1 :: real
  db_fault :: bool
  utcnow :: nat
  current_timestamp :: nat

definition UPLOAD_DIR :: "env \<Rightarrow> string" where
  "UPLOAD_DIR e = path_join (path_join (PROJECT_ROOT e) ''static'') ''uploads''"

text \<open>\<open>request_wants_json\<close> (lines 170 to 173).\<close>

definition request_wants_json :: "request \<Rightarrow> bool" where
  "request_wants_json rq =
     (let accept = (case hdr_accept rq of None \<Rightarrow> '''' | Some a \<Rightarrow> a);
          xrw = (case hdr_x_requested_with rq of None \<Rightarrow> '''' | Some x \<Rightarrow> x)
      in contains accept ''application/json'' \<or> xrw = ''XMLHttpRequest'')"

text \<open>
  The two shapes in which \<open>predict\<close> reports an error: \<open>jsonify({"error": msg}), code\<close> or
  the dashboard with \<open>error=msg\<close> (lines 200 to 202 and alike), and
  \<open>jsonify({"error": msg, "details": str(e)}), code\<close> or the dashboard with
  \<open>error=msg + ": " + str(e)\<close> (lines 253 to 255 and alike).
\<close>

definition error_response :: "bool \<Rightarrow> nat \<Rightarrow> string \<Rightarrow> response" where
  "error_response wants_json code msg =
     (if wants_json then (code, Json_error msg None) else (200, Dashboard msg))"

definition error_details_response :: "bool \<Rightarrow> nat \<Rightarrow> string \<Rightarrow> string \<Rightarrow> response" where
  "error_details_response wants_json code msg details =
     (if wants_json then (code, Json_error msg (Some details))
      else (200, Dashboard (msg @ '': '' @ details)))"

section \<open>Inference adapter\<close>

text \<open>\<open>random.uniform(a, b)\<close> is \<open>a + (b - a) * random()\<close>.\<close>

definition random_uniform :: "real \<Rightarrow> real \<Rightarrow> real \<Rightarrow> real" where
  "random_uniform a b u = a + (b - a) * u"

text \<open>\<open>predict_from_model\<close> (lines 181 to 187).\<close>

definition predict_from_model :: "env \<Rightarrow> file_content \<Rightarrow> string + real" where
  "predict_from_model e input_data =
     (case model e of
        None \<Rightarrow> Inr (random_uniform 0.75 0.95 (random_random e))
      | Some m \<Rightarrow> m input_data)"

text \<open>
  Lines 258 to 275: the probability and the inference time, or the message of the
  exception of line 266. Without a model \<open>predict_from_model\<close> does not raise.
\<close>

definition classify :: "env \<Rightarrow> file_content \<Rightarrow> string + real \<times> real" where
  "classify e input_data =
     (case predict_from_model e input_data of
        Inl msg \<Rightarrow> Inl msg
      | Inr prob \<Rightarrow> Inr (prob, py_round (time_t1 e - time_t0 e) 4))"

text \<open>The label mapping of lines 278 to 280.\<close>

definition label_of :: "real \<Rightarrow> string" where
  "label_of prob = (if 0.5 < prob then ''Normal'' else ''Fractured'')"

definition confidence_of :: "real \<Rightarrow> real" where
  "confidence_of prob = (if label_of prob = ''Normal'' then prob else 1 - prob)"

definition confidence_pct_of :: "real \<Rightarrow> real" where
  "confidence_pct_of prob = py_round (confidence_of prob * 100) 2"

section \<open>The handler of /predict\<close>

text \<open>
  Lines 198 to 227: the message of the first validation that fails, or the filename, the
  bytes and the stripped patient name.
\<close>

definition validate :: "request \<Rightarrow> string + string \<times> string \<times> string" where
  "validate rq =
     (case file_part rq of
        None \<Rightarrow> Inl ''No file uploaded''
      | Some (filename, content) \<Rightarrow>
          if filename = '''' then Inl ''No file selected''
          else
            let pname = strip (case form_patient_name rq of None \<Rightarrow> '''' | Some p \<Rightarrow> p)
            in if pname = '''' then Inl ''Patient name is required.''
               else if \<not> allowed_file filename then Inl ''File type not allowed''
               else Inr (filename, content, pname))"

text \<open>
  Lines 238 to 255, for an upload saved as \<open>saved_name\<close> at \<open>filepath\<close>: the message of
  the exception, or the new name, the file to classify and the file system. A failure of
  \<open>os.remove\<close> is passed over (lines 244 to 247).
\<close>

definition webp_to_png ::
  "env \<Rightarrow> string \<Rightarrow> string \<Rightarrow> string \<Rightarrow> fs \<Rightarrow> string + string \<times> file_content \<times> fs" where
  "webp_to_png e saved_name filepath content files =
     (case convert_raises e of
        Some msg \<Rightarrow> Inl msg
      | None \<Rightarrow>
          let base_without_ext = rsplit_first saved_name;
              new_name = base_without_ext @ ''.png'';
              new_path = path_join (UPLOAD_DIR e) new_name;
              files1 = files(new_path \<mapsto> Png content);
              files2 = (if remove_raises e then files1 else files1(filepath := None))
          in Inr (new_name, Png content, files2))"

text \<open>
  Lines 198 to 281: everything before the write to the database. The result is the
  response of an early return, or the values computed for the prediction, and the file
  system. An exception of \<open>file.save\<close> reaches the handler of lines 311 to 316.
\<close>

definition pipeline :: "env \<Rightarrow> request \<Rightarrow> fs \<Rightarrow> (response + result) \<times> fs" where
  "pipeline e rq files =
     (let wants_json = request_wants_json rq in
      case validate rq of
        Inl msg \<Rightarrow> (Inl (error_response wants_json 400 msg), files)
      | Inr (raw_name, content, pname) \<Rightarrow>
          let filename = secure_filename e raw_name;
              saved_name = now_stamp e @ ''_'' @ filename;
              filepath = path_join (UPLOAD_DIR e) saved_name
          in case save_raises e of
               Some msg \<Rightarrow>
                 (Inl (error_details_response wants_json 500 ''Unhandled server error'' msg),
                  files)
             | None \<Rightarrow>
                 let files1 = files(filepath \<mapsto> Uploaded content) in
                 case (if extension filename = ''webp''
                       then webp_to_png e saved_name filepath content files1
                       else Inr (saved_name, Uploaded content, files1)) of
                   Inl msg \<Rightarrow>
                     (Inl (error_details_response wants_json 400 ''WEBP conversion failed'' msg),
                      files1)
                 | Inr (saved_name', input_data, files2) \<Rightarrow>
                     (case classify e input_data of
                        Inl msg \<Rightarrow>
                          (Inl (error_details_response wants_json 500 ''Prediction error'' msg),
                           files2)
                      | Inr (prob, itime) \<Rightarrow>
                          (Inr \<lparr>r_id = ''A'' @ scan_stamp e,
                                r_label = label_of prob,
                                r_confidence = confidence_of prob,
                                r_confidence_pct = confidence_pct_of prob,
                                r_image_path = ''/static/uploads/'' @ saved_name',
                                r_patient_name = pname,
                                r_inference_time = itime\<rparr>,
                           files2)))"

text \<open>Lines 283 to 287: an exception of \<open>insert_prediction\<close> is logged and dropped.\<close>

definition persist :: "env \<Rightarrow> result \<Rightarrow> db \<Rightarrow> db" where
  "persist e r d =
     (case insert_prediction (db_fault e) (utcnow e) (current_timestamp e) d (r_id r)
             (r_patient_name r) (r_label r) (r_confidence r) (r_inference_time r)
             (r_image_path r) of
        Inl err \<Rightarrow> d
      | Inr d' \<Rightarrow> d')"

text \<open>Lines 289 to 309.\<close>

definition respond :: "env \<Rightarrow> bool \<Rightarrow> result \<Rightarrow> response" where
  "respond e wants_json r =
     (if wants_json then (200, Json_result r)
      else (200, Result_page (r_label r) (r_confidence_pct r) (r_image_path r)
                   ''Please consult your physician if symptoms persist.''
                   (current_date e) (r_patient_name r)))"

text \<open>\<open>predict\<close> (lines 194 to 316) on the file system and the database.\<close>

definition predict :: "env \<Rightarrow> request \<Rightarrow> fs \<times> db \<Rightarrow> response \<times> fs \<times> db" where
  "predict e rq s =
     (case pipeline e rq (fst s) of
        (Inl resp, files') \<Rightarrow> (resp, files', snd s)
      | (Inr r, files') \<Rightarrow>
          (respond e (request_wants_json rq) r, files', persist e r (snd s)))"

section \<open>The dashboard's endpoints\<close>

text \<open>\<open>api_stats\<close> (lines 320 to 327).\<close>

definition api_stats :: "bool \<Rightarrow> db \<Rightarrow> response" where
  "api_stats fault d =
     (case query_stats fault d of
        Inl err \<Rightarrow> (500, Json_error ''Failed to fetch stats'' None)
      | Inr s \<Rightarrow> (200, Json_stats s))"

text \<open>
  Line 332, \<open>int(request.args.get("n", 10))\<close>, on the query argument \<open>n\<close>. Python's
  \<open>int\<close> on a string is a parameter, \<open>int'\<close>: the integer it returns, or the error it
  raises. On the default, the integer 10, \<open>int\<close> returns 10.
\<close>

definition request_n :: "(string \<Rightarrow> error + int) \<Rightarrow> string option \<Rightarrow> error + int" where
  "request_n int' arg = (case arg of None \<Rightarrow> Inr 10 | Some s \<Rightarrow> int' s)"

text \<open>\<open>api_recent\<close> (lines 329 to 337).\<close>

definition api_recent ::
  "(string \<Rightarrow> error + int) \<Rightarrow> bool \<Rightarrow> db \<Rightarrow> string option \<Rightarrow> response" where
  "api_recent int' fault d arg =
     (case request_n int' arg of
        Inl err \<Rightarrow> (500, Json_error ''Failed to fetch recent rows'' None)
      | Inr n \<Rightarrow>
          (case query_recent fault d n of
             Inl err \<Rightarrow> (500, Json_error ''Failed to fetch recent rows'' None)
           | Inr recent \<Rightarrow> (200, Json_recent recent)))"

section \<open>Report generator\<close>

text \<open>
  What the handler draws on the canvas, and what \<open>send_file\<close> returns: the status, the
  attachment's name and type, and the pages of the document, each the operations drawn
  on it.
\<close>

datatype draw_op =
    SetFont string nat
  | DrawString nat nat string
  | DrawImage string nat nat nat nat

text \<open>Whether an operation draws an image.\<close>

fun is_image :: "draw_op \<Rightarrow> bool" where
  "is_image (DrawImage p x y w h) = True"
| "is_image op = False"

record attachment =
  a_status :: nat
  a_as_attachment :: bool
  a_download_name :: string
  a_mimetype :: string
  a_pages :: "draw_op list list"

text \<open>\<open>data.get(key, default)\<close>.\<close>

definition get_default :: "(string \<Rightarrow> string option) \<Rightarrow> string \<Rightarrow> string \<Rightarrow> string" where
  "get_default data k dflt = (case data k of None \<Rightarrow> dflt | Some v \<Rightarrow> v)"

text \<open>
  Lines 361 to 368: the path of the image to embed. \<open>path_exists\<close> is \<open>os.path.exists\<close>.
\<close>

definition resolve_image :: "env \<Rightarrow> (string \<Rightarrow> bool) \<Rightarrow> string option \<Rightarrow> string option" where
  "resolve_image e path_exists img =
     (case img of
        None \<Rightarrow> None
      | Some p \<Rightarrow>
          if p = '''' then None
          else
            let candidate = lstrip_slash p;
                candidate2 = path_join (UPLOAD_DIR e) (basename candidate)
            in if path_exists candidate then Some candidate
               else if path_exists candidate2 then Some candidate2
               else None)"

text \<open>
  Lines 370 to 374: the image on the page; \<open>image_raises\<close> says for which paths
  \<open>ImageReader\<close> or \<open>drawImage\<close> raises, which line 373 passes over.
\<close>

definition embed_image :: "(string \<Rightarrow> bool) \<Rightarrow> string option \<Rightarrow> draw_op list" where
  "embed_image image_raises use_path =
     (case use_path of
        None \<Rightarrow> []
      | Some p \<Rightarrow>
          if p = '''' \<or> image_raises p then [] else [DrawImage p 40 380 300 300])"

text \<open>
  \<open>download_report\<close> (lines 341 to 382) on the form or query arguments \<open>data\<close>. The page
  is closed once, by \<open>showPage\<close>, and \<open>save\<close> finds nothing more to draw.
\<close>

definition download_report ::
  "env \<Rightarrow> (string \<Rightarrow> bool) \<Rightarrow> (string \<Rightarrow> bool) \<Rightarrow> (string \<Rightarrow> string option) \<Rightarrow> attachment" where
  "download_report e path_exists image_raises data =
     (let prediction = get_default data ''prediction'' ''Unknown'';
          accuracy = get_default data ''accuracy'' ''N/A'';
          img = data ''image_path'';
          pname = get_default data ''patient_name'' ''Uploaded Patient'';
          date = get_default data ''current_date'' (current_date e);
          use_path = resolve_image e path_exists img;
          page =
            [SetFont ''Helvetica-Bold'' 20,
             DrawString 40 800 ''X-ray Analysis Report'',
             SetFont ''Helvetica'' 12,
             DrawString 40 780 (''Date: '' @ date),
             DrawString 40 760 (''Patient: '' @ pname),
             DrawString 40 740 (''Diagnosis: '' @ prediction),
             DrawString 40 720 (''Confidence: '' @ accuracy @ ''%'')]
            @ embed_image image_raises use_path
            @ [DrawString 40 360 (''Doctor'' @ [CHR 0x27] @ ''s Note:''),
               SetFont ''Helvetica-Oblique'' 12,
               DrawString 60 340
                 ''Always consult a medical professional if you have any concerns.'']
      in \<lparr>a_status = 200, a_as_attachment = True, a_download_name = ''xray_report.pdf'',
          a_mimetype = ''application/pdf'', a_pages = [page]\<rparr>)"

section \<open>Example inputs\<close>

text \<open>
  An environment and a request for the examples below: no model is loaded, nothing
  raises, and the upload is \<open>scan.webp\<close> for the patient Jane Doe, sent by a client that
  asks for JSON. On this filename \<open>secure_filename\<close> changes nothing.
\<close>

definition example_env :: env where
  "example_env =
     \<lparr>PROJECT_ROOT = ''/srv/app'', secure_filename = (\<lambda>s. s),
      now_stamp = ''20240101120000000000'', scan_stamp = ''240101120000'',
      current_date = ''January 01, 2024'', save_raises = None, convert_raises = None,
      remove_raises = False, model = None, random_random = 1 / 2, time_t0 = 10,
      time_t1 = 10.25, db_fault = False, utcnow = 1000, current_timestamp = 1001\<rparr>"

definition example_request :: request where
  "example_request =
     \<lparr>hdr_accept = Some ''application/json'', hdr_x_requested_with = None,
      file_part = Some (''scan.webp'', ''RIFF''), form_patient_name = Some '' Jane Doe ''\<rparr>"

text \<open>A table written by three calls of \<open>insert_prediction\<close> with three scan ids.\<close>

definition example_db :: db where
  "example_db = run_upserts empty_db
     [\<lparr>u_fault = False, u_utcnow = 100, u_current_timestamp = 101,
       u_scan_id = ''A240101120000'', u_patient_name = ''Jane Doe'', u_label = ''Normal'',
       u_confidence = 0.8, u_inference_time = 0.01,
       u_image_path = ''/static/uploads/a.png''\<rparr>,
      \<lparr>u_fault = False, u_utcnow = 200, u_current_timestamp = 201,
       u_scan_id = ''A240101120001'', u_patient_name = ''John Roe'', u_label = ''Fractured'',
       u_confidence = 0.7, u_inference_time = 0.02,
       u_image_path = ''/static/uploads/b.png''\<rparr>,
      \<lparr>u_fault = False, u_utcnow = 300, u_current_timestamp = 301,
       u_scan_id = ''A240101120002'', u_patient_name = ''Ann Poe'', u_label = ''Normal'',
       u_confidence = 0.9, u_inference_time = 0.03,
       u_image_path = ''/static/uploads/c.png''\<rparr>]"

text \<open>
  Python's \<open>int\<close> on the strings of the examples below: \<open>int("2")\<close> is 2, \<open>int("0")\<close> is 0,
  \<open>int("-3")\<close> is -3 and \<open>int("two")\<close> raises \<open>ValueError\<close>. The examples apply it to no
  other string.
\<close>

definition example_int :: "string \<Rightarrow> error + int" where
  "example_int s =
     (case map_of [(''2'', 2), (''0'', 0), (''-3'', - 3)] s of
        Some n \<Rightarrow> Inr n
      | None \<Rightarrow> Inl ValueError)"

section \<open>Rounding stays within integer bounds\<close>

lemma round_half_even_bounds:
  "of_int a \<le> x \<Longrightarrow> x \<le> of_int b \<Longrightarrow> a \<le> round_half_even x \<and> round_half_even x \<le> b"
proof -
  assume lo: "of_int a \<le> x" and hi: "x \<le> of_int b"
  have fl: "a \<le> \<lfloor>x\<rfloor>" using lo by (simp add: le_floor_iff)
  have fb: "\<lfloor>x\<rfloor> \<le> b" using hi by (metis floor_mono floor_of_int)
  have strict: "x - of_int \<lfloor>x\<rfloor> \<noteq> 0 \<Longrightarrow> \<lfloor>x\<rfloor> + 1 \<le> b"
  proof -
    assume nz: "x - of_int \<lfloor>x\<rfloor> \<noteq> 0"
    have "of_int \<lfloor>x\<rfloor> < x" using nz of_int_floor_le [of x] by linarith
    then have "of_int \<lfloor>x\<rfloor> < (of_int b :: real)" using hi by linarith
    then have "\<lfloor>x\<rfloor> < b" by simp
    then show ?thesis by simp
  qed
  show ?thesis
    using fl fb strict by (auto simp: round_half_even_def Let_def)
qed

lemma py_round_bounds:
  assumes "of_int a \<le> x * 10 ^ n" and "x * 10 ^ n \<le> of_int b"
  shows "of_int a / 10 ^ n \<le> py_round x n \<and> py_round x n \<le> of_int b / 10 ^ n"
proof -
  have "a \<le> round_half_even (x * 10 ^ n) \<and> round_half_even (x * 10 ^ n) \<le> b"
    using assms by (rule round_half_even_bounds)
  then have "(of_int a :: real) \<le> of_int (round_half_even (x * 10 ^ n))
      \<and> (of_int (round_half_even (x * 10 ^ n)) :: real) \<le> of_int b"
    by simp
  then show ?thesis
    by (simp add: py_round_def divide_right_mono)
qed

section \<open>What a run of the pipeline returns\<close>

lemmas eval_defs =
  pipeline_def validate_def example_request_def example_env_def strip_def isspace_def
  allowed_file_def extension_def ALLOWED_EXT_def lower_def lower_char_def rsplit_last_def
  rsplit_first_def request_wants_json_def webp_to_png_def classify_def
  predict_from_model_def random_uniform_def UPLOAD_DIR_def path_join_def label_of_def
  confidence_of_def confidence_pct_of_def py_round_def round_half_even_def
  error_response_def error_details_response_def Let_def

lemma pipeline_Inr:
  assumes "pipeline e rq files = (Inr r, files')"
  shows "\<exists>raw content pn saved input p.
     validate rq = Inr (raw, content, pn) \<and> save_raises e = None \<and>
     predict_from_model e input = Inr p \<and>
     r = \<lparr>r_id = ''A'' @ scan_stamp e, r_label = label_of p, r_confidence = confidence_of p,
          r_confidence_pct = confidence_pct_of p, r_image_path = ''/static/uploads/'' @ saved,
          r_patient_name = pn, r_inference_time = py_round (time_t1 e - time_t0 e) 4\<rparr>"
  using assms
  by (auto simp: pipeline_def classify_def Let_def
      split: sum.splits prod.splits option.splits if_splits)

lemma pipeline_Inl:
  assumes "pipeline e rq files = (Inl resp, files')"
  shows "(\<exists>msg details. snd resp = Json_error msg details) \<or> (\<exists>msg. snd resp = Dashboard msg)"
  using assms
  by (auto simp: pipeline_def Let_def error_response_def error_details_response_def
      split: sum.splits prod.splits option.splits if_splits)

lemma predict_Json_result:
  assumes "fst (predict e rq s) = (st, Json_result r)"
  shows "\<exists>files'. pipeline e rq (fst s) = (Inr r, files')"
proof (cases "pipeline e rq (fst s)")
  case (Pair a files')
  show ?thesis
  proof (cases a)
    case (Inl resp)
    with Pair have "(\<exists>msg details. snd resp = Json_error msg details) \<or> (\<exists>msg. snd resp = Dashboard msg)"
      using pipeline_Inl by blast
    moreover from Pair Inl assms have "snd resp = Json_result r"
      by (simp add: predict_def)
    ultimately show ?thesis by auto
  next
    case (Inr r')
    with Pair assms have "r' = r"
      by (simp add: predict_def respond_def split: if_splits)
    with Pair Inr show ?thesis by simp
  qed
qed

lemma predict_Result_page:
  assumes "fst (predict e rq s) = (st, Result_page pr acc ip dn cd pn)"
  shows "\<exists>r files'. pipeline e rq (fst s) = (Inr r, files') \<and> pr = r_label r \<and>
     acc = r_confidence_pct r \<and> ip = r_image_path r \<and> pn = r_patient_name r"
proof (cases "pipeline e rq (fst s)")
  case (Pair a files')
  show ?thesis
  proof (cases a)
    case (Inl resp)
    with Pair have "(\<exists>msg details. snd resp = Json_error msg details) \<or> (\<exists>msg. snd resp = Dashboard msg)"
      using pipeline_Inl by blast
    moreover from Pair Inl assms have "snd resp = Result_page pr acc ip dn cd pn"
      by (simp add: predict_def)
    ultimately show ?thesis by auto
  next
    case (Inr r')
    with Pair assms show ?thesis
      by (simp add: predict_def respond_def split: if_splits)
  qed
qed

section \<open>Splitting a filename at its last dot\<close>

lemma rsplit_last_append:
  assumes "CHR ''.'' \<notin> set ext"
  shows "rsplit_last (stem @ CHR ''.'' # ext) = ext"
proof -
  have "takeWhile (\<lambda>c. c \<noteq> CHR ''.'') (rev ext @ CHR ''.'' # rev stem) =
      rev ext @ takeWhile (\<lambda>c. c \<noteq> CHR ''.'') (CHR ''.'' # rev stem)"
    by (rule takeWhile_append2) (use assms in auto)
  then show ?thesis by (simp add: rsplit_last_def)
qed

lemma rsplit_first_append:
  assumes "CHR ''.'' \<notin> set ext"
  shows "rsplit_first (stem @ CHR ''.'' # ext) = stem"
proof -
  have "dropWhile (\<lambda>c. c \<noteq> CHR ''.'') (rev ext @ CHR ''.'' # rev stem) =
      dropWhile (\<lambda>c. c \<noteq> CHR ''.'') (CHR ''.'' # rev stem)"
    by (rule dropWhile_append2) (use assms in auto)
  then show ?thesis by (simp add: rsplit_first_def)
qed

lemma rsplit_decompose:
  assumes "CHR ''.'' \<in> set s"
  shows "s = rsplit_first s @ CHR ''.'' # rsplit_last s \<and> CHR ''.'' \<notin> set (rsplit_last s)"
proof -
  let ?P = "\<lambda>c. c \<noteq> CHR ''.''"
  from assms have ne: "dropWhile ?P (rev s) \<noteq> []" by auto
  then have "hd (dropWhile ?P (rev s)) = CHR ''.''"
    using hd_dropWhile [of ?P "rev s"] by simp
  with ne have d: "dropWhile ?P (rev s) = CHR ''.'' # tl (dropWhile ?P (rev s))"
    by (metis list.collapse)
  have "rev s = takeWhile ?P (rev s) @ dropWhile ?P (rev s)" by simp
  then have "rev s = takeWhile ?P (rev s) @ CHR ''.'' # tl (dropWhile ?P (rev s))"
    using d by simp
  then have "rev (rev s) = rev (takeWhile ?P (rev s) @ CHR ''.'' # tl (dropWhile ?P (rev s)))"
    by simp
  then have "s = rev (tl (dropWhile ?P (rev s))) @ CHR ''.'' # rev (takeWhile ?P (rev s))"
    by simp
  moreover have "CHR ''.'' \<notin> set (rev (takeWhile ?P (rev s)))"
    by (auto dest: set_takeWhileD)
  ultimately show ?thesis
    using assms by (simp add: rsplit_first_def rsplit_last_def)
qed

lemma extension_append:
  "CHR ''.'' \<notin> set ext \<Longrightarrow> extension (stem @ CHR ''.'' # ext) = lower ext"
  by (simp add: extension_def rsplit_last_append)

lemma allowed_file_iff:
  "allowed_file filename \<longleftrightarrow>
     (\<exists>stem ext. filename = stem @ ''.'' @ ext \<and> CHR ''.'' \<notin> set ext \<and>
        lower ext \<in> {''png'', ''jpg'', ''jpeg'', ''gif'', ''webp''})"
proof
  assume a: "allowed_file filename"
  then have dot: "CHR ''.'' \<in> set filename"
    by (auto simp: allowed_file_def extension_def ALLOWED_EXT_def split: if_splits)
  from rsplit_decompose [OF dot] a dot show
    "\<exists>stem ext. filename = stem @ ''.'' @ ext \<and> CHR ''.'' \<notin> set ext \<and>
        lower ext \<in> {''png'', ''jpg'', ''jpeg'', ''gif'', ''webp''}"
    by (intro exI [of _ "rsplit_first filename"] exI [of _ "rsplit_last filename"])
       (simp add: allowed_file_def extension_def ALLOWED_EXT_def)
next
  assume "\<exists>stem ext. filename = stem @ ''.'' @ ext \<and> CHR ''.'' \<notin> set ext \<and>
        lower ext \<in> {''png'', ''jpg'', ''jpeg'', ''gif'', ''webp''}"
  then obtain stem ext where "filename = stem @ CHR ''.'' # ext" "CHR ''.'' \<notin> set ext"
    "lower ext \<in> {''png'', ''jpg'', ''jpeg'', ''gif'', ''webp''}"
    by auto
  then show "allowed_file filename"
    by (simp add: allowed_file_def extension_append ALLOWED_EXT_def)
qed

section \<open>A request without a file\<close>

text \<open>
  Claim C1, as the code has it. When the multipart body has no part \<open>file\<close>, a request
  that asks for JSON gets the status 400 and the JSON body with the error
  \<open>No file uploaded\<close>; any other request gets the dashboard page rendered with that
  error, with the status 200. In both cases no file and no row is written.
\<close>

theorem predict_no_file:
  assumes "file_part rq = None"
  shows "predict e rq (files, d) =
     ((if request_wants_json rq then (400, Json_error ''No file uploaded'' None)
       else (200, Dashboard ''No file uploaded'')), files, d)"
  using assms by (simp add: predict_def pipeline_def validate_def error_response_def)

text \<open>The example request without its file, asking for JSON.\<close>

theorem predict_no_file_witness:
  "file_part (example_request\<lparr>file_part := None\<rparr>) = None \<and>
   predict example_env (example_request\<lparr>file_part := None\<rparr>) (Map.empty, empty_db) =
     ((400, Json_error ''No file uploaded'' None), Map.empty, empty_db)"
  using predict_no_file [of "example_request\<lparr>file_part := None\<rparr>" example_env Map.empty empty_db]
  by (simp add: example_request_def request_wants_json_def)

text \<open>
  The claim as stated fails for a request that does not ask for JSON: the same request
  without the \<open>Accept\<close> header is answered with the status 200.
\<close>

theorem predict_no_file_html_counterexample:
  "predict example_env (example_request\<lparr>hdr_accept := None, file_part := None\<rparr>)
     (Map.empty, empty_db) =
   ((200, Dashboard ''No file uploaded''), Map.empty, empty_db)"
  by (simp add: predict_def pipeline_def validate_def error_response_def
      example_request_def request_wants_json_def)

section \<open>The label mapping\<close>

lemma confidence_of_range:
  "0 \<le> p \<Longrightarrow> p \<le> 1 \<Longrightarrow> 0 \<le> confidence_of p \<and> confidence_of p \<le> 1"
  by (simp add: confidence_of_def label_of_def)

lemma confidence_pct_of_range:
  assumes "0 \<le> p" and "p \<le> 1"
  shows "0 \<le> confidence_pct_of p \<and> confidence_pct_of p \<le> 100"
proof -
  have c: "0 \<le> confidence_of p \<and> confidence_of p \<le> 1"
    using assms by (rule confidence_of_range)
  have "of_int 0 / 10 ^ 2 \<le> py_round (confidence_of p * 100) 2
      \<and> py_round (confidence_of p * 100) 2 \<le> of_int 10000 / 10 ^ 2"
    using c by (intro py_round_bounds) simp_all
  then show ?thesis by (simp add: confidence_pct_of_def)
qed

text \<open>
  Claim C2. Whenever \<open>predict\<close> gets as far as a prediction, inference has produced a
  probability \<open>p\<close> from which the result is formed: the label is Normal if \<open>p > 0.5\<close>
  and Fractured otherwise, the confidence is \<open>p\<close> for Normal and \<open>1 - p\<close> otherwise,
  \<open>confidence_pct\<close> is \<open>round(confidence * 100, 2)\<close>, and for \<open>p\<close> in [0, 1] it lies in
  [0, 100]. Floats are real numbers here.
\<close>

theorem predict_label_mapping:
  assumes "pipeline e rq files = (Inr r, files')"
  shows "\<exists>input p. predict_from_model e input = Inr p \<and>
     r_label r = (if 0.5 < p then ''Normal'' else ''Fractured'') \<and>
     r_confidence r = (if r_label r = ''Normal'' then p else 1 - p) \<and>
     r_confidence_pct r = py_round (r_confidence r * 100) 2 \<and>
     (0 \<le> p \<and> p \<le> 1 \<longrightarrow> 0 \<le> r_confidence_pct r \<and> r_confidence_pct r \<le> 100)"
proof -
  from pipeline_Inr [OF assms] obtain raw content pn saved input p where
    p: "predict_from_model e input = Inr p" and
    r: "r = \<lparr>r_id = ''A'' @ scan_stamp e, r_label = label_of p, r_confidence = confidence_of p,
          r_confidence_pct = confidence_pct_of p, r_image_path = ''/static/uploads/'' @ saved,
          r_patient_name = pn, r_inference_time = py_round (time_t1 e - time_t0 e) 4\<rparr>"
    by blast
  have "r_label r = (if 0.5 < p then ''Normal'' else ''Fractured'')"
    by (simp add: r label_of_def)
  moreover have "r_confidence r = (if r_label r = ''Normal'' then p else 1 - p)"
    by (simp add: r confidence_of_def)
  moreover have "r_confidence_pct r = py_round (r_confidence r * 100) 2"
    by (simp add: r confidence_pct_of_def)
  moreover have "0 \<le> p \<and> p \<le> 1 \<Longrightarrow> 0 \<le> r_confidence_pct r \<and> r_confidence_pct r \<le> 100"
    using confidence_pct_of_range [of p] by (simp add: r)
  ultimately show ?thesis using p by auto
qed

text \<open>
  With a model that returns 0.3 for the example upload, the result is Fractured with
  confidence 0.7 and \<open>confidence_pct\<close> 70.
\<close>

theorem predict_label_mapping_witness:
  "fst (pipeline (example_env\<lparr>model := Some (\<lambda>c. Inr 0.3)\<rparr>) example_request Map.empty) =
     Inr \<lparr>r_id = ''A240101120000'', r_label = ''Fractured'', r_confidence = 0.7,
          r_confidence_pct = 70,
          r_image_path = ''/static/uploads/20240101120000000000_scan.png'',
          r_patient_name = ''Jane Doe'', r_inference_time = 0.25\<rparr> \<and>
   predict_from_model (example_env\<lparr>model := Some (\<lambda>c. Inr 0.3)\<rparr>) (Png ''RIFF'') = Inr 0.3 \<and>
   (\<exists>input p. predict_from_model (example_env\<lparr>model := Some (\<lambda>c. Inr 0.3)\<rparr>) input = Inr p \<and>
      ''Fractured'' = (if 0.5 < p then ''Normal'' else ''Fractured''))"
proof -
  define E where "E = example_env\<lparr>model := Some (\<lambda>c. Inr 0.3)\<rparr>"
  define r0 where "r0 = \<lparr>r_id = ''A240101120000'', r_label = ''Fractured'', r_confidence = 0.7,
          r_confidence_pct = 70,
          r_image_path = ''/static/uploads/20240101120000000000_scan.png'',
          r_patient_name = ''Jane Doe'', r_inference_time = 0.25\<rparr>"
  have run: "fst (pipeline E example_request Map.empty) = Inr r0"
    unfolding E_def r0_def by (simp add: eval_defs)
  then have "pipeline E example_request Map.empty =
      (Inr r0, snd (pipeline E example_request Map.empty))"
    by (metis prod.collapse)
  from predict_label_mapping [OF this] obtain input p where
    p: "predict_from_model E input = Inr p" and
    l: "r_label r0 = (if 0.5 < p then ''Normal'' else ''Fractured'')"
    by blast
  have "r_label r0 = ''Fractured''" by (simp add: r0_def)
  with l have "''Fractured'' = (if 0.5 < p then ''Normal'' else ''Fractured'')" by simp
  with p have "\<exists>input p. predict_from_model E input = Inr p \<and>
      ''Fractured'' = (if 0.5 < p then ''Normal'' else ''Fractured'')"
    by (intro exI [of _ input] exI [of _ p]) simp
  moreover have "predict_from_model E (Png ''RIFF'') = Inr 0.3"
    by (simp add: E_def predict_from_model_def example_env_def)
  ultimately show ?thesis
    using run unfolding E_def r0_def by blast
qed

section \<open>The upsert keeps one row per scan id\<close>

lemma filter_scan_id_distinct:
  "distinct (map scan_id rs) \<Longrightarrow> length (filter (\<lambda>r. scan_id r = sid) rs) \<le> 1"
proof (induction rs)
  case Nil
  then show ?case by simp
next
  case (Cons a rs)
  show ?case
  proof (cases "scan_id a = sid")
    case True
    with Cons.prems have "filter (\<lambda>r. scan_id r = sid) rs = []"
      by (auto simp: filter_empty_conv image_iff)
    with True show ?thesis by simp
  next
    case False
    with Cons show ?thesis by simp
  qed
qed

lemma filter_scan_id_cases:
  assumes "distinct (map scan_id rs)"
  shows "filter (\<lambda>r. scan_id r = sid) rs = [] \<or> (\<exists>obj. filter (\<lambda>r. scan_id r = sid) rs = [obj])"
proof -
  have "length (filter (\<lambda>r. scan_id r = sid) rs) \<le> 1"
    using assms by (rule filter_scan_id_distinct)
  then show ?thesis
    by (cases "filter (\<lambda>r. scan_id r = sid) rs") (auto simp: length_Suc_conv)
qed

lemma map_scan_id_update:
  "map scan_id (map (\<lambda>r. if scan_id r = sid
                 then r\<lparr>patient_name := pname, label := lbl, confidence := conf,
                        inference_time := itime, image_path := ipath, timestamp := un\<rparr>
                 else r) rs) = map scan_id rs"
  by (induction rs) auto

lemma insert_prediction_distinct:
  assumes "distinct (map scan_id (rows d))"
    and "insert_prediction fault un sn d sid pn lb cf it ip = Inr d'"
  shows "distinct (map scan_id (rows d'))"
proof -
  from assms(1) consider
    (new) "filter (\<lambda>r. scan_id r = sid) (rows d) = []"
    | (old) obj where "filter (\<lambda>r. scan_id r = sid) (rows d) = [obj]"
    using filter_scan_id_cases by blast
  then show ?thesis
  proof cases
    case new
    then have "sid \<notin> set (map scan_id (rows d))"
      by (auto simp: filter_empty_conv)
    with assms new show ?thesis
      by (auto simp: insert_prediction_def split: if_splits)
  next
    case old
    with assms show ?thesis
      by (auto simp: insert_prediction_def map_scan_id_update simp del: map_map split: if_splits)
  qed
qed

lemma upsert_distinct:
  "distinct (map scan_id (rows d)) \<Longrightarrow>
   distinct (map scan_id (rows (case upsert d c of Inl e \<Rightarrow> d | Inr d' \<Rightarrow> d')))"
  by (auto simp: upsert_def split: sum.splits dest: insert_prediction_distinct)

lemma run_upserts_distinct:
  "distinct (map scan_id (rows d)) \<Longrightarrow> distinct (map scan_id (rows (run_upserts d cs)))"
proof (induction cs arbitrary: d)
  case Nil
  then show ?case by simp
next
  case (Cons c cs)
  then show ?case using upsert_distinct [of d c] by simp
qed


lemma filter_eq_update:
  "filter (\<lambda>x. scan_id x = sid) (map (\<lambda>r. if scan_id r = sid
                 then r\<lparr>patient_name := pname, label := lbl, confidence := conf,
                        inference_time := itime, image_path := ipath, timestamp := un\<rparr>
                 else r) rs) =
   map (\<lambda>r. r\<lparr>patient_name := pname, label := lbl, confidence := conf,
                        inference_time := itime, image_path := ipath, timestamp := un\<rparr>)
     (filter (\<lambda>x. scan_id x = sid) rs)"
  by (induction rs) auto

lemma filter_neq_update:
  "filter (\<lambda>x. scan_id x \<noteq> sid) (map (\<lambda>r. if scan_id r = sid
                 then r\<lparr>patient_name := pname, label := lbl, confidence := conf,
                        inference_time := itime, image_path := ipath, timestamp := un\<rparr>
                 else r) rs) =
   filter (\<lambda>x. scan_id x \<noteq> sid) rs"
  by (induction rs) auto

lemma map_id_update:
  "map id' (map (\<lambda>r. if scan_id r = sid
                 then r\<lparr>patient_name := pname, label := lbl, confidence := conf,
                        inference_time := itime, image_path := ipath, timestamp := un\<rparr>
                 else r) rs) = map id' rs"
  by (induction rs) auto

lemma map_true_label_update:
  "map true_label (map (\<lambda>r. if scan_id r = sid
                 then r\<lparr>patient_name := pname, label := lbl, confidence := conf,
                        inference_time := itime, image_path := ipath, timestamp := un\<rparr>
                 else r) rs) = map true_label rs"
  by (induction rs) auto

lemma filter_neq_all:
  "filter (\<lambda>r. scan_id r = sid) rs = [] \<Longrightarrow> filter (\<lambda>x. scan_id x \<noteq> sid) rs = rs"
  by (induction rs) (auto split: if_splits)

text \<open>
  Claim C3. Whatever calls of \<open>insert_prediction\<close> have run on a table with one row
  per \<open>scan_id\<close> at most (the empty table for one), failed ones included, the table
  still has one row per \<open>scan_id\<close> at most, and a further call that the session does
  not fail returns without error and leaves exactly one row with its \<open>scan_id\<close>,
  holding the patient name, label, confidence, inference time and image path of the
  call, every other row being as before. Where the \<open>scan_id\<close> was present, the number
  of rows, their order, their primary keys and their \<open>true_label\<close> are unchanged and the
  row is stamped with the current time; where it was not, the row is appended.
\<close>

theorem insert_prediction_upsert:
  assumes "distinct (map scan_id (rows d0))"
  shows "let d = run_upserts d0 calls in
     distinct (map scan_id (rows d)) \<and>
     (\<exists>d' r. insert_prediction False un sn d sid pn lb cf it ip = Inr d' \<and>
        distinct (map scan_id (rows d')) \<and>
        filter (\<lambda>x. scan_id x = sid) (rows d') = [r] \<and>
        patient_name r = pn \<and> label r = lb \<and> confidence r = cf \<and>
        inference_time r = it \<and> image_path r = ip \<and>
        filter (\<lambda>x. scan_id x \<noteq> sid) (rows d') = filter (\<lambda>x. scan_id x \<noteq> sid) (rows d) \<and>
        (if sid \<in> set (map scan_id (rows d))
         then timestamp r = un \<and> length (rows d') = length (rows d) \<and>
              map scan_id (rows d') = map scan_id (rows d) \<and>
              map id' (rows d') = map id' (rows d) \<and>
              map true_label (rows d') = map true_label (rows d)
         else timestamp r = sn \<and> rows d' = rows d @ [r] \<and> true_label r = None))"
proof -
  define d where "d = run_upserts d0 calls"
  have dist: "distinct (map scan_id (rows d))"
    unfolding d_def using assms by (rule run_upserts_distinct)
  from dist consider
    (new) "filter (\<lambda>r. scan_id r = sid) (rows d) = []"
    | (old) obj where "filter (\<lambda>r. scan_id r = sid) (rows d) = [obj]"
    using filter_scan_id_cases by blast
  then have "\<exists>d' r. insert_prediction False un sn d sid pn lb cf it ip = Inr d' \<and>
        distinct (map scan_id (rows d')) \<and>
        filter (\<lambda>x. scan_id x = sid) (rows d') = [r] \<and>
        patient_name r = pn \<and> label r = lb \<and> confidence r = cf \<and>
        inference_time r = it \<and> image_path r = ip \<and>
        filter (\<lambda>x. scan_id x \<noteq> sid) (rows d') = filter (\<lambda>x. scan_id x \<noteq> sid) (rows d) \<and>
        (if sid \<in> set (map scan_id (rows d))
         then timestamp r = un \<and> length (rows d') = length (rows d) \<and>
              map scan_id (rows d') = map scan_id (rows d) \<and>
              map id' (rows d') = map id' (rows d) \<and>
              map true_label (rows d') = map true_label (rows d)
         else timestamp r = sn \<and> rows d' = rows d @ [r] \<and> true_label r = None)"
  proof cases
    case new
    then have notin: "sid \<notin> set (map scan_id (rows d))"
      by (auto simp: filter_empty_conv)
    have keep: "filter (\<lambda>x. scan_id x \<noteq> sid) (rows d) = rows d"
      using new by (rule filter_neq_all)
    show ?thesis
      using new notin dist keep by (simp add: insert_prediction_def)
  next
    case old
    then have "obj \<in> set (filter (\<lambda>r. scan_id r = sid) (rows d))" by simp
    then have isin: "sid \<in> set (map scan_id (rows d))" by auto
    show ?thesis
      using old isin dist
      by (simp add: insert_prediction_def filter_eq_update filter_neq_update
          map_scan_id_update map_id_update map_true_label_update del: map_map)
  qed
  with dist show ?thesis
    unfolding d_def by (simp add: Let_def)
qed


text \<open>
  Three calls with one \<open>scan_id\<close>, the second failed by the session, leave one row, with
  the values of the third; a fourth call updates that row again.
\<close>

theorem insert_prediction_upsert_witness:
  "distinct (map scan_id (rows empty_db)) \<and>
   rows (run_upserts empty_db
     [\<lparr>u_fault = False, u_utcnow = 100, u_current_timestamp = 101, u_scan_id = ''A240101120000'',
       u_patient_name = ''Jane Doe'', u_label = ''Normal'', u_confidence = 0.8,
       u_inference_time = 0.01, u_image_path = ''/static/uploads/a.png''\<rparr>,
      \<lparr>u_fault = True, u_utcnow = 150, u_current_timestamp = 151, u_scan_id = ''A240101120000'',
       u_patient_name = ''Lost'', u_label = ''Normal'', u_confidence = 0.9,
       u_inference_time = 0.01, u_image_path = ''/static/uploads/c.png''\<rparr>,
      \<lparr>u_fault = False, u_utcnow = 200, u_current_timestamp = 201, u_scan_id = ''A240101120000'',
       u_patient_name = ''John Roe'', u_label = ''Fractured'', u_confidence = 0.7,
       u_inference_time = 0.02, u_image_path = ''/static/uploads/b.png''\<rparr>]) =
     [\<lparr>id' = 1, scan_id = ''A240101120000'', patient_name = ''John Roe'', label = ''Fractured'',
       confidence = 0.7, inference_time = 0.02, image_path = ''/static/uploads/b.png'',
       timestamp = 200, true_label = None\<rparr>] \<and>
   (\<exists>d'. insert_prediction False 300 301 (run_upserts empty_db
     [\<lparr>u_fault = False, u_utcnow = 100, u_current_timestamp = 101, u_scan_id = ''A240101120000'',
       u_patient_name = ''Jane Doe'', u_label = ''Normal'', u_confidence = 0.8,
       u_inference_time = 0.01, u_image_path = ''/static/uploads/a.png''\<rparr>,
      \<lparr>u_fault = True, u_utcnow = 150, u_current_timestamp = 151, u_scan_id = ''A240101120000'',
       u_patient_name = ''Lost'', u_label = ''Normal'', u_confidence = 0.9,
       u_inference_time = 0.01, u_image_path = ''/static/uploads/c.png''\<rparr>,
      \<lparr>u_fault = False, u_utcnow = 200, u_current_timestamp = 201, u_scan_id = ''A240101120000'',
       u_patient_name = ''John Roe'', u_label = ''Fractured'', u_confidence = 0.7,
       u_inference_time = 0.02, u_image_path = ''/static/uploads/b.png''\<rparr>])
      ''A240101120000'' ''Ann Poe'' ''Normal'' 0.6 0.03 ''/static/uploads/d.png'' = Inr d' \<and>
      length (rows d') = 1)"
  using insert_prediction_upsert [of empty_db
     "[\<lparr>u_fault = False, u_utcnow = 100, u_current_timestamp = 101, u_scan_id = ''A240101120000'',
       u_patient_name = ''Jane Doe'', u_label = ''Normal'', u_confidence = 0.8,
       u_inference_time = 0.01, u_image_path = ''/static/uploads/a.png''\<rparr>,
      \<lparr>u_fault = True, u_utcnow = 150, u_current_timestamp = 151, u_scan_id = ''A240101120000'',
       u_patient_name = ''Lost'', u_label = ''Normal'', u_confidence = 0.9,
       u_inference_time = 0.01, u_image_path = ''/static/uploads/c.png''\<rparr>,
      \<lparr>u_fault = False, u_utcnow = 200, u_current_timestamp = 201, u_scan_id = ''A240101120000'',
       u_patient_name = ''John Roe'', u_label = ''Fractured'', u_confidence = 0.7,
       u_inference_time = 0.02, u_image_path = ''/static/uploads/b.png''\<rparr>]"
     300 301 "''A240101120000''" "''Ann Poe''" "''Normal''" "0.6" "0.03" "''/static/uploads/d.png''"]
  by (simp add: empty_db_def upsert_def insert_prediction_def)

section \<open>The most recent rows\<close>

lemma order_by_id_desc_sorted:
  assumes "distinct (map id' rs)"
  shows "sorted_wrt (\<lambda>a b. id' b < id' a) (order_by_id_desc rs)"
proof -
  have "sorted (map id' (sort_key id' rs))" by (rule sorted_sort_key)
  moreover have "distinct (map id' (sort_key id' rs))"
    using assms by (simp add: distinct_map)
  ultimately have "sorted_wrt (<) (map id' (sort_key id' rs))"
    by (simp add: strict_sorted_iff)
  then have "sorted_wrt (\<lambda>a b. id' a < id' b) (sort_key id' rs)"
    by (simp add: sorted_wrt_map)
  then show ?thesis
    by (simp add: order_by_id_desc_def sorted_wrt_rev)
qed

lemma recent_rows_props:
  assumes "distinct (map id' (rows d))"
  shows "length (recent_rows d limit) = min (nat limit) (length (rows d)) \<and>
     set (recent_rows d limit) \<subseteq> set (rows d) \<and>
     sorted_wrt (\<lambda>a b. id' b < id' a) (recent_rows d limit) \<and>
     (\<forall>r \<in> set (rows d) - set (recent_rows d limit).
        \<forall>r' \<in> set (recent_rows d limit). id' r < id' r')"
proof -
  let ?ys = "order_by_id_desc (rows d)"
  let ?n = "nat limit"
  have srt: "sorted_wrt (\<lambda>a b. id' b < id' a) ?ys"
    using assms by (rule order_by_id_desc_sorted)
  have len: "length (take ?n ?ys) = min (nat limit) (length (rows d))"
    by (simp add: order_by_id_desc_def min.commute)
  have sub: "set (take ?n ?ys) \<subseteq> set (rows d)"
    using set_take_subset [of ?n ?ys] by (simp add: order_by_id_desc_def)
  have "sorted_wrt (\<lambda>a b. id' b < id' a) (take ?n ?ys @ drop ?n ?ys)"
    using srt by simp
  then have parts: "sorted_wrt (\<lambda>a b. id' b < id' a) (take ?n ?ys) \<and>
      (\<forall>x \<in> set (take ?n ?ys). \<forall>y \<in> set (drop ?n ?ys). id' y < id' x)"
    by (simp only: sorted_wrt_append) simp
  have rest: "set (rows d) - set (take ?n ?ys) \<subseteq> set (drop ?n ?ys)"
  proof -
    have "set (rows d) = set (take ?n ?ys @ drop ?n ?ys)"
      by (simp add: order_by_id_desc_def)
    then have "set (rows d) = set (take ?n ?ys) \<union> set (drop ?n ?ys)"
      by (simp only: set_append)
    then show ?thesis by blast
  qed
  have top: "\<forall>r \<in> set (rows d) - set (take ?n ?ys). \<forall>r' \<in> set (take ?n ?ys). id' r < id' r'"
    using parts rest by blast
  show ?thesis
    unfolding recent_rows_def using len sub parts top by blast
qed

text \<open>
  Rows written by \<open>insert_prediction\<close> alone stand in the order of their primary keys,
  all below the counter: a later insertion has the greater key.
\<close>

lemma insert_prediction_ids:
  assumes "sorted_wrt (<) (map id' (rows d))" and "\<forall>r \<in> set (rows d). id' r < next_id d"
    and "insert_prediction fault un sn d sid pn lb cf it ip = Inr d'"
  shows "sorted_wrt (<) (map id' (rows d')) \<and> (\<forall>r \<in> set (rows d'). id' r < next_id d')"
proof (cases "filter (\<lambda>r. scan_id r = sid) (rows d)")
  case Nil
  with assms(3) have d': "d' = d\<lparr>rows := rows d @
      [\<lparr>id' = next_id d, scan_id = sid, patient_name = pn, label = lb, confidence = cf,
        inference_time = it, image_path = ip, timestamp = sn, true_label = None\<rparr>],
      next_id := Suc (next_id d)\<rparr>"
    by (auto simp: insert_prediction_def split: if_splits)
  show ?thesis
    using assms(1,2) by (auto simp: d' sorted_wrt_append less_Suc_eq)
next
  case (Cons obj more)
  with assms(3) have ids: "map id' (rows d') = map id' (rows d)" and n: "next_id d' = next_id d"
    by (auto simp: insert_prediction_def map_id_update simp del: map_map
        split: if_splits list.splits)
  from ids have img: "id' ` set (rows d') = id' ` set (rows d)"
    by (metis set_map)
  have "\<forall>r \<in> set (rows d'). id' r < next_id d'"
  proof
    fix r
    assume "r \<in> set (rows d')"
    then have "id' r \<in> id' ` set (rows d)" using img by blast
    then obtain r0 where "r0 \<in> set (rows d)" and "id' r = id' r0" by blast
    with assms(2) n show "id' r < next_id d'" by simp
  qed
  with assms(1) ids show ?thesis by simp
qed

lemma run_upserts_ids:
  assumes "sorted_wrt (<) (map id' (rows d))" and "\<forall>r \<in> set (rows d). id' r < next_id d"
  shows "sorted_wrt (<) (map id' (rows (run_upserts d cs))) \<and>
     (\<forall>r \<in> set (rows (run_upserts d cs)). id' r < next_id (run_upserts d cs))"
  using assms
proof (induction cs arbitrary: d)
  case Nil
  then show ?case by simp
next
  case (Cons c cs)
  show ?case
  proof (cases "upsert d c")
    case (Inl err)
    with Cons show ?thesis by simp
  next
    case (Inr d')
    then have "sorted_wrt (<) (map id' (rows d')) \<and> (\<forall>r \<in> set (rows d'). id' r < next_id d')"
      using insert_prediction_ids [OF Cons.prems] by (simp add: upsert_def)
    with Inr Cons.IH [of d'] show ?thesis by simp
  qed
qed

lemma recent_rows_latest_first:
  "recent_rows (run_upserts empty_db cs) limit =
     take (nat limit) (rev (rows (run_upserts empty_db cs)))"
proof -
  have "sorted_wrt (<) (map id' (rows (run_upserts empty_db cs)))"
    using run_upserts_ids [of empty_db cs] by (simp add: empty_db_def)
  then have "sorted (map id' (rows (run_upserts empty_db cs)))"
    by (rule strict_sorted_imp_sorted)
  then have "sort_key id' (rows (run_upserts empty_db cs)) = rows (run_upserts empty_db cs)"
    by (rule sort_key_id_if_sorted)
  then show ?thesis
    by (simp add: recent_rows_def order_by_id_desc_def)
qed

text \<open>
  Claim C4, as the code has it. On a table whose primary keys are distinct and for a
  \<open>limit\<close> that is not negative, whenever \<open>query_recent\<close> returns, the list has at most
  \<open>limit\<close> entries: those of the \<open>min(limit, number of rows)\<close> rows with the greatest
  primary keys, in descending order of primary key. On a table written by
  \<open>insert_prediction\<close> alone these are the rows inserted last, the latest first.
  \<open>/api/recent\<close> puts no test on the limit: whatever integer \<open>int(n)\<close> returns, 10 when
  \<open>n\<close> is absent, goes to \<open>query_recent\<close> as it is, and when \<open>int(n)\<close> raises the answer
  has the status 500.
\<close>

theorem recent_capped_and_ordered:
  assumes "distinct (map id' (rows d))" and "0 \<le> limit"
  shows "(\<forall>out. query_recent fault d limit = Inr out \<longrightarrow>
        int (length out) \<le> limit \<and>
        (\<exists>rs. out = map to_entry rs \<and>
           length rs = min (nat limit) (length (rows d)) \<and>
           set rs \<subseteq> set (rows d) \<and>
           sorted_wrt (\<lambda>a b. id' b < id' a) rs \<and>
           (\<forall>r \<in> set (rows d) - set rs. \<forall>r' \<in> set rs. id' r < id' r'))) \<and>
     recent_rows (run_upserts empty_db cs) limit =
       take (nat limit) (rev (rows (run_upserts empty_db cs))) \<and>
     request_n int' None = Inr 10 \<and>
     request_n int' (Some s) = int' s \<and>
     (\<forall>n out. request_n int' arg = Inr n \<and> query_recent fault d n = Inr out \<longrightarrow>
        api_recent int' fault d arg = (200, Json_recent out)) \<and>
     (\<forall>err. request_n int' arg = Inl err \<longrightarrow>
        api_recent int' fault d arg =
          (500, Json_error ''Failed to fetch recent rows'' None))"
proof (intro conjI allI impI)
  fix out
  assume ret: "query_recent fault d limit = Inr out"
  then have out: "out = map to_entry (recent_rows d limit)"
    by (auto simp: query_recent_def split: if_splits)
  have props: "length (recent_rows d limit) = min (nat limit) (length (rows d)) \<and>
     set (recent_rows d limit) \<subseteq> set (rows d) \<and>
     sorted_wrt (\<lambda>a b. id' b < id' a) (recent_rows d limit) \<and>
     (\<forall>r \<in> set (rows d) - set (recent_rows d limit).
        \<forall>r' \<in> set (recent_rows d limit). id' r < id' r')"
    using assms(1) by (rule recent_rows_props)
  then have "length out \<le> nat limit" by (simp add: out)
  with assms(2) show "int (length out) \<le> limit" by linarith
  from out props show "\<exists>rs. out = map to_entry rs \<and>
           length rs = min (nat limit) (length (rows d)) \<and>
           set rs \<subseteq> set (rows d) \<and>
           sorted_wrt (\<lambda>a b. id' b < id' a) rs \<and>
           (\<forall>r \<in> set (rows d) - set rs. \<forall>r' \<in> set rs. id' r < id' r')"
    by blast
next
  show "recent_rows (run_upserts empty_db cs) limit =
       take (nat limit) (rev (rows (run_upserts empty_db cs)))"
    by (rule recent_rows_latest_first)
next
  show "request_n int' None = Inr 10" by (simp add: request_n_def)
next
  show "request_n int' (Some s) = int' s" by (simp add: request_n_def)
next
  fix n out
  assume "request_n int' arg = Inr n \<and> query_recent fault d n = Inr out"
  then show "api_recent int' fault d arg = (200, Json_recent out)"
    by (simp add: api_recent_def)
next
  fix err
  assume "request_n int' arg = Inl err"
  then show "api_recent int' fault d arg =
      (500, Json_error ''Failed to fetch recent rows'' None)"
    by (simp add: api_recent_def)
qed

text \<open>
  A table of three rows, written by three calls of \<open>insert_prediction\<close>: \<open>n=2\<close> returns
  the entries of the third and the second row, in this order, and \<open>n=two\<close> is answered
  with 500.
\<close>

theorem recent_capped_and_ordered_witness:
  "distinct (map id' (rows example_db)) \<and> (0 :: int) \<le> 2 \<and>
   request_n example_int (Some ''2'') = Inr 2 \<and>
   query_recent False example_db 2 = Inr
       [\<lparr>e_scan_id = ''A240101120002'', e_patient_name = ''Ann Poe'', e_label = ''Normal'',
         e_confidence = 0.9, e_inference_time = 0.03,
         e_image_path = ''/static/uploads/c.png'', e_timestamp = 301\<rparr>,
        \<lparr>e_scan_id = ''A240101120001'', e_patient_name = ''John Roe'', e_label = ''Fractured'',
         e_confidence = 0.7, e_inference_time = 0.02,
         e_image_path = ''/static/uploads/b.png'', e_timestamp = 201\<rparr>] \<and>
   api_recent example_int False example_db (Some ''2'') =
     (200, Json_recent
       [\<lparr>e_scan_id = ''A240101120002'', e_patient_name = ''Ann Poe'', e_label = ''Normal'',
         e_confidence = 0.9, e_inference_time = 0.03,
         e_image_path = ''/static/uploads/c.png'', e_timestamp = 301\<rparr>,
        \<lparr>e_scan_id = ''A240101120001'', e_patient_name = ''John Roe'', e_label = ''Fractured'',
         e_confidence = 0.7, e_inference_time = 0.02,
         e_image_path = ''/static/uploads/b.png'', e_timestamp = 201\<rparr>]) \<and>
   (\<exists>rs. length rs = 2 \<and> set rs \<subseteq> set (rows example_db) \<and>
      sorted_wrt (\<lambda>a b. id' b < id' a) rs \<and>
      query_recent False example_db 2 = Inr (map to_entry rs)) \<and>
   request_n example_int (Some ''two'') = Inl ValueError \<and>
   api_recent example_int False example_db (Some ''two'') =
     (500, Json_error ''Failed to fetch recent rows'' None)"
proof -
  define out where "out =
       [\<lparr>e_scan_id = ''A240101120002'', e_patient_name = ''Ann Poe'', e_label = ''Normal'',
         e_confidence = 0.9, e_inference_time = 0.03,
         e_image_path = ''/static/uploads/c.png'', e_timestamp = 301\<rparr>,
        \<lparr>e_scan_id = ''A240101120001'', e_patient_name = ''John Roe'', e_label = ''Fractured'',
         e_confidence = 0.7, e_inference_time = 0.02,
         e_image_path = ''/static/uploads/b.png'', e_timestamp = 201\<rparr>]"
  have d: "distinct (map id' (rows example_db))"
    by (simp add: example_db_def empty_db_def upsert_def insert_prediction_def)
  have pos: "(0 :: int) \<le> 2" by simp
  have len: "length (rows example_db) = 3"
    by (simp add: example_db_def empty_db_def upsert_def insert_prediction_def)
  have n: "request_n example_int (Some ''2'') = Inr 2"
    by (simp add: request_n_def example_int_def)
  have bad: "request_n example_int (Some ''two'') = Inl ValueError"
    by (simp add: request_n_def example_int_def)
  have q: "query_recent False example_db 2 = Inr out"
    unfolding out_def
    by (simp add: query_recent_def recent_rows_def order_by_id_desc_def to_entry_def
        example_db_def empty_db_def upsert_def insert_prediction_def numeral_2_eq_2)
  note inst = recent_capped_and_ordered [OF d pos, of False "[]" example_int]
  from inst [of "''2''" "Some ''2''"] n q
  have api: "api_recent example_int False example_db (Some ''2'') = (200, Json_recent out)"
    by blast
  from inst [of "''2''" "Some ''2''"] q obtain rs where
    "out = map to_entry rs" "length rs = min (nat 2) (length (rows example_db))"
    "set rs \<subseteq> set (rows example_db)" "sorted_wrt (\<lambda>a b. id' b < id' a) rs"
    by blast
  with len q have rows: "\<exists>rs. length rs = 2 \<and> set rs \<subseteq> set (rows example_db) \<and>
      sorted_wrt (\<lambda>a b. id' b < id' a) rs \<and>
      query_recent False example_db 2 = Inr (map to_entry rs)"
    by auto
  from inst [of "''two''" "Some ''two''"] bad
  have err: "api_recent example_int False example_db (Some ''two'') =
     (500, Json_error ''Failed to fetch recent rows'' None)"
    by blast
  from d n q api rows bad err show ?thesis
    unfolding out_def by simp
qed

text \<open>
  The claim as stated fails on the limit: \<open>n=0\<close> and \<open>n=-3\<close> reach \<open>query_recent\<close> as 0
  and -3, and with \<open>n=0\<close> the answer is the empty list, with the status 200, although the
  table has rows.
\<close>

theorem recent_limit_counterexample:
  "request_n example_int (Some ''0'') = Inr 0 \<and>
   request_n example_int (Some ''-3'') = Inr (- 3) \<and>
   length (rows example_db) = 3 \<and>
   api_recent example_int False example_db (Some ''0'') = (200, Json_recent [])"
  by (simp add: api_recent_def query_recent_def recent_rows_def request_n_def example_int_def
      example_db_def empty_db_def upsert_def insert_prediction_def)

section \<open>WEBP uploads\<close>

lemma startswith_slash: "startswith s ''/'' \<longleftrightarrow> s \<noteq> [] \<and> hd s = CHR ''/''"
  by (cases s) auto

lemma path_join_inject:
  assumes "startswith x ''/'' \<longleftrightarrow> startswith y ''/''" and "path_join a x = path_join a y"
  shows "x = y"
  using assms by (auto simp: path_join_def split: if_splits)

lemma lower_png: "lower ext = ''webp'' \<Longrightarrow> ext \<noteq> ''png''"
  by (auto simp: lower_def lower_char_def)

lemma webp_paths_differ:
  assumes "extension filename = ''webp''"
  shows "path_join u (stamp @ ''_'' @ filename) \<noteq>
     path_join u (rsplit_first (stamp @ ''_'' @ filename) @ ''.png'')"
proof
  assume eq: "path_join u (stamp @ ''_'' @ filename) =
      path_join u (rsplit_first (stamp @ ''_'' @ filename) @ ''.png'')"
  from assms have dot: "CHR ''.'' \<in> set filename"
    by (auto simp: extension_def split: if_splits)
  from assms dot have low: "lower (rsplit_last filename) = ''webp''"
    by (simp add: extension_def)
  from rsplit_decompose [OF dot] low obtain stem ext where
    f: "filename = stem @ CHR ''.'' # ext" and nd: "CHR ''.'' \<notin> set ext" and
    l: "lower ext = ''webp''"
    by blast
  define base where "base = stamp @ ''_'' @ stem"
  have s: "stamp @ ''_'' @ filename = base @ CHR ''.'' # ext"
    by (simp add: base_def f)
  have first: "rsplit_first (base @ CHR ''.'' # ext) = base"
    using nd by (rule rsplit_first_append)
  have ne: "base \<noteq> []" by (simp add: base_def)
  then have same: "startswith (base @ CHR ''.'' # ext) ''/'' \<longleftrightarrow>
      startswith (base @ ''.png'') ''/''"
    by (simp add: startswith_slash)
  from eq have "path_join u (base @ CHR ''.'' # ext) = path_join u (base @ ''.png'')"
    by (simp only: s first)
  with same have "base @ CHR ''.'' # ext = base @ ''.png''"
    by (rule path_join_inject)
  then have "ext = ''png''" by simp
  with l show False using lower_png by blast
qed

lemma predict_webp:
  assumes "validate rq = Inr (raw, content, pn)" and "save_raises e = None"
    and "extension (secure_filename e raw) = ''webp''"
  shows "pipeline e rq files =
     (let saved_name = now_stamp e @ ''_'' @ secure_filename e raw;
          filepath = path_join (UPLOAD_DIR e) saved_name;
          files1 = files(filepath \<mapsto> Uploaded content)
      in case webp_to_png e saved_name filepath content files1 of
           Inl msg \<Rightarrow>
             (Inl (error_details_response (request_wants_json rq) 400
                     ''WEBP conversion failed'' msg), files1)
         | Inr (saved_name', input_data, files2) \<Rightarrow>
             (case classify e input_data of
                Inl msg \<Rightarrow>
                  (Inl (error_details_response (request_wants_json rq) 500
                          ''Prediction error'' msg), files2)
              | Inr (prob, itime) \<Rightarrow>
                  (Inr \<lparr>r_id = ''A'' @ scan_stamp e, r_label = label_of prob,
                        r_confidence = confidence_of prob,
                        r_confidence_pct = confidence_pct_of prob,
                        r_image_path = ''/static/uploads/'' @ saved_name',
                        r_patient_name = pn, r_inference_time = itime\<rparr>, files2)))"
  using assms by (simp add: pipeline_def Let_def)

text \<open>
  Claim C5, as the code has it. Take an upload that passed the validation and was
  saved, whose sanitized filename has the extension webp in any case.
  If decoding and encoding succeed, the PNG file is stored under the saved name with
  its extension replaced by \<open>.png\<close>, every response that carries a prediction names that
  file as \<open>image_path\<close>, and the WEBP file is gone, unless \<open>os.remove\<close> raised, which is
  passed over and leaves it.
  If decoding or encoding raises, \<open>predict\<close> stops before inference and writes no row:
  the error \<open>WEBP conversion failed\<close> is returned, with the status 400 to a request that
  asks for JSON and on the dashboard page, with the status 200, to any other.
\<close>

theorem predict_webp_normalized:
  assumes "validate rq = Inr (raw, content, pn)" and "save_raises e = None"
    and "extension (secure_filename e raw) = ''webp''"
  shows "let saved_name = now_stamp e @ ''_'' @ secure_filename e raw;
       filepath = path_join (UPLOAD_DIR e) saved_name;
       new_name = rsplit_first saved_name @ ''.png'';
       new_path = path_join (UPLOAD_DIR e) new_name;
       out = predict e rq (files, d)
     in case convert_raises e of
          Some msg \<Rightarrow>
            out = ((if request_wants_json rq
                    then (400, Json_error ''WEBP conversion failed'' (Some msg))
                    else (200, Dashboard (''WEBP conversion failed: '' @ msg))),
                   files(filepath \<mapsto> Uploaded content), d)
        | None \<Rightarrow>
            fst (snd out) new_path = Some (Png content) \<and>
            fst (snd out) filepath =
              (if remove_raises e then Some (Uploaded content) else None) \<and>
            (\<forall>st r. fst out = (st, Json_result r) \<longrightarrow>
               r_image_path r = ''/static/uploads/'' @ new_name) \<and>
            (\<forall>st pr acc ip dn cd pname. fst out = (st, Result_page pr acc ip dn cd pname) \<longrightarrow>
               ip = ''/static/uploads/'' @ new_name)"
proof (cases "convert_raises e")
  case (Some msg)
  then show ?thesis
    using predict_webp [OF assms, of files]
    by (simp add: predict_def webp_to_png_def error_details_response_def Let_def)
next
  case None
  let ?saved = "now_stamp e @ ''_'' @ secure_filename e raw"
  let ?filepath = "path_join (UPLOAD_DIR e) ?saved"
  let ?new_name = "rsplit_first ?saved @ ''.png''"
  let ?new_path = "path_join (UPLOAD_DIR e) ?new_name"
  let ?files1 = "files(?filepath \<mapsto> Uploaded content)"
  let ?files2 = "if remove_raises e then ?files1(?new_path \<mapsto> Png content)
                 else (?files1(?new_path \<mapsto> Png content))(?filepath := None)"
  have differ: "?filepath \<noteq> ?new_path"
    using assms(3) by (rule webp_paths_differ)
  have conv: "webp_to_png e ?saved ?filepath content ?files1 =
      Inr (?new_name, Png content, ?files2)"
    using None by (simp add: webp_to_png_def Let_def)
  have pipe: "pipeline e rq files =
      (case classify e (Png content) of
         Inl msg \<Rightarrow>
           (Inl (error_details_response (request_wants_json rq) 500
                   ''Prediction error'' msg), ?files2)
       | Inr (prob, itime) \<Rightarrow>
           (Inr \<lparr>r_id = ''A'' @ scan_stamp e, r_label = label_of prob,
                 r_confidence = confidence_of prob,
                 r_confidence_pct = confidence_pct_of prob,
                 r_image_path = ''/static/uploads/'' @ ?new_name,
                 r_patient_name = pn, r_inference_time = itime\<rparr>, ?files2))"
    using predict_webp [OF assms, of files]
    by (simp only: Let_def conv sum.case prod.case)
  have files: "fst (snd (predict e rq (files, d))) = ?files2"
    by (simp add: predict_def pipe split: sum.split prod.split)
  have png: "?files2 ?new_path = Some (Png content)"
    using differ by simp
  have old: "?files2 ?filepath = (if remove_raises e then Some (Uploaded content) else None)"
    using differ by simp
  have stored: "fst (snd (predict e rq (files, d))) ?new_path = Some (Png content)"
    by (simp only: files png)
  have removed: "fst (snd (predict e rq (files, d))) ?filepath =
      (if remove_raises e then Some (Uploaded content) else None)"
    by (simp only: files old)
  have res: "r_image_path r = ''/static/uploads/'' @ ?new_name"
    if "pipeline e rq files = (Inr r, files')" for r files'
  proof (cases "classify e (Png content)")
    case (Inl msg)
    with that pipe show ?thesis by simp
  next
    case (Inr pt)
    with that pipe show ?thesis by (cases pt) auto
  qed
  have json: "r_image_path r = ''/static/uploads/'' @ ?new_name"
    if "fst (predict e rq (files, d)) = (st, Json_result r)" for st r
  proof -
    from that obtain files' where "pipeline e rq files = (Inr r, files')"
      using predict_Json_result by fastforce
    then show ?thesis by (rule res)
  qed
  have page: "ip = ''/static/uploads/'' @ ?new_name"
    if "fst (predict e rq (files, d)) = (st, Result_page pr acc ip dn cd pname)"
    for st pr acc ip dn cd pname
  proof -
    from that obtain r files' where "pipeline e rq files = (Inr r, files')"
      and "ip = r_image_path r"
      using predict_Result_page by fastforce
    then show ?thesis using res by simp
  qed
  have J: "\<forall>st r. fst (predict e rq (files, d)) = (st, Json_result r) \<longrightarrow>
      r_image_path r = ''/static/uploads/'' @ ?new_name"
    using json by blast
  have P: "\<forall>st pr acc ip dn cd pname.
      fst (predict e rq (files, d)) = (st, Result_page pr acc ip dn cd pname) \<longrightarrow>
      ip = ''/static/uploads/'' @ ?new_name"
    using page by blast
  show ?thesis
    unfolding Let_def None option.case by (intro conjI stored removed J P)
qed

text \<open>
  The example: \<open>scan.webp\<close> is stored as a PNG file and the WEBP file is removed; when
  decoding raises, the JSON client gets 400 and the table stays empty.
\<close>

theorem predict_webp_normalized_witness:
  "validate example_request = Inr (''scan.webp'', ''RIFF'', ''Jane Doe'') \<and>
   save_raises example_env = None \<and>
   extension (secure_filename example_env ''scan.webp'') = ''webp'' \<and>
   fst (snd (predict example_env example_request (Map.empty, empty_db)))
     ''/srv/app/static/uploads/20240101120000000000_scan.png'' = Some (Png ''RIFF'') \<and>
   fst (snd (predict example_env example_request (Map.empty, empty_db)))
     ''/srv/app/static/uploads/20240101120000000000_scan.webp'' = None \<and>
   (\<exists>r. fst (predict example_env example_request (Map.empty, empty_db)) = (200, Json_result r) \<and>
      r_image_path r = ''/static/uploads/20240101120000000000_scan.png'') \<and>
   predict (example_env\<lparr>convert_raises := Some ''cannot identify image file''\<rparr>)
     example_request (Map.empty, empty_db) =
     ((400, Json_error ''WEBP conversion failed'' (Some ''cannot identify image file'')),
      [''/srv/app/static/uploads/20240101120000000000_scan.webp'' \<mapsto> Uploaded ''RIFF''],
      empty_db)"
proof -
  define E where "E = example_env\<lparr>convert_raises := Some ''cannot identify image file''\<rparr>"
  have v: "validate example_request = Inr (''scan.webp'', ''RIFF'', ''Jane Doe'')"
    by (simp add: eval_defs)
  have s: "save_raises example_env = None" "save_raises E = None"
    by (simp_all add: E_def example_env_def)
  have x: "extension (secure_filename example_env ''scan.webp'') = ''webp''"
    "extension (secure_filename E ''scan.webp'') = ''webp''"
    by (simp_all add: E_def eval_defs)
  have ok: "convert_raises example_env = None" "\<not> remove_raises example_env"
    by (simp_all add: example_env_def)
  have names: "path_join (UPLOAD_DIR example_env)
        (rsplit_first (now_stamp example_env @ ''_'' @ secure_filename example_env ''scan.webp'')
           @ ''.png'') = ''/srv/app/static/uploads/20240101120000000000_scan.png''"
    "path_join (UPLOAD_DIR example_env)
        (now_stamp example_env @ ''_'' @ secure_filename example_env ''scan.webp'') =
     ''/srv/app/static/uploads/20240101120000000000_scan.webp''"
    "path_join (UPLOAD_DIR E) (now_stamp E @ ''_'' @ secure_filename E ''scan.webp'') =
     ''/srv/app/static/uploads/20240101120000000000_scan.webp''"
    by (simp_all add: E_def eval_defs)
  have names': "rsplit_first (now_stamp example_env @ ''_'' @
        secure_filename example_env ''scan.webp'') @ ''.png'' =
      ''20240101120000000000_scan.png''"
    by (simp add: eval_defs)
  have names'': "path_join (UPLOAD_DIR example_env) ''20240101120000000000_scan.png'' =
      ''/srv/app/static/uploads/20240101120000000000_scan.png''"
    by (simp add: eval_defs)
  obtain r where run: "fst (predict example_env example_request (Map.empty, empty_db)) =
      (200, Json_result r)"
    by (simp add: predict_def respond_def eval_defs)
  from predict_webp_normalized [OF v s(1) x(1), of Map.empty empty_db]
  have a: "fst (snd (predict example_env example_request (Map.empty, empty_db)))
       ''/srv/app/static/uploads/20240101120000000000_scan.png'' = Some (Png ''RIFF'') \<and>
     fst (snd (predict example_env example_request (Map.empty, empty_db)))
       ''/srv/app/static/uploads/20240101120000000000_scan.webp'' = None \<and>
     (\<forall>st r. fst (predict example_env example_request (Map.empty, empty_db)) =
          (st, Json_result r) \<longrightarrow>
        r_image_path r = ''/static/uploads/'' @ ''20240101120000000000_scan.png'')"
    unfolding Let_def names names' names'' by (simp add: ok)
  with run have c: "\<exists>r. fst (predict example_env example_request (Map.empty, empty_db)) =
        (200, Json_result r) \<and>
      r_image_path r = ''/static/uploads/20240101120000000000_scan.png''"
    by auto
  from predict_webp_normalized [OF v s(2) x(2), of Map.empty empty_db]
  have b: "predict E example_request (Map.empty, empty_db) =
     ((400, Json_error ''WEBP conversion failed'' (Some ''cannot identify image file'')),
      [''/srv/app/static/uploads/20240101120000000000_scan.webp'' \<mapsto> Uploaded ''RIFF''],
      empty_db)"
    unfolding Let_def names
    by (simp add: E_def example_env_def example_request_def request_wants_json_def)
  from v s(1) x(1) a b c show ?thesis unfolding E_def by simp
qed

text \<open>
  The claim as stated fails twice. When decoding raises for a request that does not ask
  for JSON, the answer has the status 200; and when \<open>os.remove\<close> raises, the WEBP file
  stays on disk beside the PNG file.
\<close>

theorem predict_webp_counterexample:
  "fst (predict (example_env\<lparr>convert_raises := Some ''cannot identify image file''\<rparr>)
     (example_request\<lparr>hdr_accept := None\<rparr>) (Map.empty, empty_db)) =
     (200, Dashboard ''WEBP conversion failed: cannot identify image file'') \<and>
   fst (snd (predict (example_env\<lparr>remove_raises := True\<rparr>) example_request
     (Map.empty, empty_db)))
     ''/srv/app/static/uploads/20240101120000000000_scan.webp'' = Some (Uploaded ''RIFF'') \<and>
   fst (snd (predict (example_env\<lparr>remove_raises := True\<rparr>) example_request
     (Map.empty, empty_db)))
     ''/srv/app/static/uploads/20240101120000000000_scan.png'' = Some (Png ''RIFF'')"
  by (simp add: predict_def eval_defs)

section \<open>The extension check\<close>

text \<open>
  Claim C6, as the code has it. \<open>allowed_file\<close> holds of a filename exactly when the
  filename has a dot and what follows its last dot is, in lower case, one of png, jpg,
  jpeg, gif, webp. An upload with a filename and a patient name passes the validation
  exactly when \<open>allowed_file\<close> holds of its filename; otherwise nothing is written and
  the error \<open>File type not allowed\<close> is returned, with the status 400 to a request that
  asks for JSON and on the dashboard page, with the status 200, to any other.
\<close>

theorem upload_extension_check:
  assumes "file_part rq = Some (filename, content)" and "filename \<noteq> ''''"
    and "form_patient_name rq = Some given" and "strip given \<noteq> ''''"
  shows "(allowed_file filename \<longleftrightarrow>
       (\<exists>stem ext. filename = stem @ ''.'' @ ext \<and> CHR ''.'' \<notin> set ext \<and>
          lower ext \<in> {''png'', ''jpg'', ''jpeg'', ''gif'', ''webp''})) \<and>
     (if allowed_file filename
      then validate rq = Inr (filename, content, strip given)
      else predict e rq (files, d) =
        ((if request_wants_json rq then (400, Json_error ''File type not allowed'' None)
          else (200, Dashboard ''File type not allowed'')), files, d))"
  using assms allowed_file_iff [of filename]
  by (simp add: predict_def pipeline_def validate_def error_response_def)

text \<open>
  The example request with the upload \<open>notes.TXT\<close> is rejected with 400; with
  \<open>scan.WebP\<close> it passes the validation.
\<close>

theorem upload_extension_check_witness:
  "\<not> allowed_file ''notes.TXT'' \<and>
   predict example_env (example_request\<lparr>file_part := Some (''notes.TXT'', ''hello'')\<rparr>)
     (Map.empty, empty_db) =
     ((400, Json_error ''File type not allowed'' None), Map.empty, empty_db) \<and>
   allowed_file ''scan.WebP'' \<and>
   validate (example_request\<lparr>file_part := Some (''scan.WebP'', ''RIFF'')\<rparr>) =
     Inr (''scan.WebP'', ''RIFF'', ''Jane Doe'')"
proof -
  have no: "\<not> allowed_file ''notes.TXT''" and yes: "allowed_file ''scan.WebP''"
    by (simp_all add: eval_defs)
  have s: "strip '' Jane Doe '' = ''Jane Doe''"
    by (simp add: strip_def isspace_def)
  from upload_extension_check [of "example_request\<lparr>file_part := Some (''notes.TXT'', ''hello'')\<rparr>"
      "''notes.TXT''" "''hello''" "'' Jane Doe ''" example_env Map.empty empty_db] no s
  have a: "predict example_env (example_request\<lparr>file_part := Some (''notes.TXT'', ''hello'')\<rparr>)
     (Map.empty, empty_db) =
     ((400, Json_error ''File type not allowed'' None), Map.empty, empty_db)"
    by (simp add: example_request_def request_wants_json_def)
  from upload_extension_check [of "example_request\<lparr>file_part := Some (''scan.WebP'', ''RIFF'')\<rparr>"
      "''scan.WebP''" "''RIFF''" "'' Jane Doe ''" example_env Map.empty empty_db] yes s
  have b: "validate (example_request\<lparr>file_part := Some (''scan.WebP'', ''RIFF'')\<rparr>) =
     Inr (''scan.WebP'', ''RIFF'', ''Jane Doe'')"
    by (simp add: example_request_def)
  from no a yes b show ?thesis by simp
qed

text \<open>
  The claim as stated fails for a request that does not ask for JSON: the upload
  \<open>notes.TXT\<close> without the \<open>Accept\<close> header is answered with the status 200.
\<close>

theorem upload_extension_html_counterexample:
  "predict example_env
     (example_request\<lparr>hdr_accept := None, file_part := Some (''notes.TXT'', ''hello'')\<rparr>)
     (Map.empty, empty_db) =
   ((200, Dashboard ''File type not allowed''), Map.empty, empty_db)"
  by (simp add: predict_def eval_defs)

section \<open>Persistence is best effort\<close>

lemma UPLOAD_DIR_db_fault: "UPLOAD_DIR (e\<lparr>db_fault := fault\<rparr>) = UPLOAD_DIR e"
  by (simp add: UPLOAD_DIR_def)

lemma classify_db_fault: "classify (e\<lparr>db_fault := fault\<rparr>) c = classify e c"
  by (simp add: classify_def predict_from_model_def split: option.split sum.split)

lemma webp_to_png_db_fault:
  "webp_to_png (e\<lparr>db_fault := fault\<rparr>) saved filepath content files =
   webp_to_png e saved filepath content files"
  by (simp add: webp_to_png_def UPLOAD_DIR_db_fault Let_def split: option.split)

lemma pipeline_db_fault:
  "pipeline (e\<lparr>db_fault := fault\<rparr>) rq files = pipeline e rq files"
  by (simp add: pipeline_def UPLOAD_DIR_db_fault classify_db_fault webp_to_png_db_fault
      Let_def split: sum.split option.split prod.split)

text \<open>
  Claim C7. When a call of \<open>predict\<close> reaches the persistence step with the computed
  result \<open>r\<close>, the response is the success response for \<open>r\<close>, with the status 200,
  whatever the table holds and whether or not the session fails; a failed write leaves
  the table as it was.
\<close>

theorem predict_persistence_best_effort:
  assumes "pipeline e rq files = (Inr r, files')"
  shows "fst (predict (e\<lparr>db_fault := fault\<rparr>) rq (files, d)) =
       (200, if request_wants_json rq then Json_result r
             else Result_page (r_label r) (r_confidence_pct r) (r_image_path r)
                    ''Please consult your physician if symptoms persist.''
                    (current_date e) (r_patient_name r)) \<and>
     (fault \<longrightarrow> snd (snd (predict (e\<lparr>db_fault := fault\<rparr>) rq (files, d))) = d)"
  using assms
  by (simp add: predict_def pipeline_db_fault respond_def persist_def insert_prediction_def)

text \<open>
  The example with a failing session: the prediction is returned and the table stays
  empty.
\<close>

theorem predict_persistence_best_effort_witness:
  "fst (pipeline example_env example_request Map.empty) =
     Inr \<lparr>r_id = ''A240101120000'', r_label = ''Normal'', r_confidence = 0.85,
          r_confidence_pct = 85,
          r_image_path = ''/static/uploads/20240101120000000000_scan.png'',
          r_patient_name = ''Jane Doe'', r_inference_time = 0.25\<rparr> \<and>
   fst (predict (example_env\<lparr>db_fault := True\<rparr>) example_request (Map.empty, empty_db)) =
     (200, Json_result \<lparr>r_id = ''A240101120000'', r_label = ''Normal'', r_confidence = 0.85,
          r_confidence_pct = 85,
          r_image_path = ''/static/uploads/20240101120000000000_scan.png'',
          r_patient_name = ''Jane Doe'', r_inference_time = 0.25\<rparr>) \<and>
   snd (snd (predict (example_env\<lparr>db_fault := True\<rparr>) example_request (Map.empty, empty_db))) =
     empty_db"
proof -
  define r0 where "r0 = \<lparr>r_id = ''A240101120000'', r_label = ''Normal'', r_confidence = 0.85,
          r_confidence_pct = 85,
          r_image_path = ''/static/uploads/20240101120000000000_scan.png'',
          r_patient_name = ''Jane Doe'', r_inference_time = 0.25\<rparr>"
  have run: "fst (pipeline example_env example_request Map.empty) = Inr r0"
    unfolding r0_def by (simp add: eval_defs)
  then have "pipeline example_env example_request Map.empty =
      (Inr r0, snd (pipeline example_env example_request Map.empty))"
    by (metis prod.collapse)
  from predict_persistence_best_effort [OF this, of True empty_db]
  have "fst (predict (example_env\<lparr>db_fault := True\<rparr>) example_request (Map.empty, empty_db)) =
       (200, Json_result r0) \<and>
     snd (snd (predict (example_env\<lparr>db_fault := True\<rparr>) example_request (Map.empty, empty_db))) =
       empty_db"
    by (simp add: example_request_def request_wants_json_def)
  with run show ?thesis unfolding r0_def by simp
qed

section \<open>Statistics\<close>

text \<open>
  On the empty table \<open>query_stats\<close> returns zero scans, zero fractures, no average
  latency, no accuracy and zero labelled rows.
\<close>

lemma query_stats_empty:
  "query_stats False empty_db =
     Inr \<lparr>total_scans = 0, fractures = 0, avg_latency = None, model_accuracy = None,
          labelled_count = 0\<rparr>"
  by (simp add: query_stats_def empty_db_def sql_avg_def)

text \<open>
  Claim C8 at a table with a labelled row. The claim has \<open>model_accuracy\<close> present
  whenever \<open>labelled_count\<close> is not zero; on the row below, whose \<open>true_label\<close> is set,
  the query of line 119 raises, \<open>query_stats\<close> returns no statistics at all and
  \<open>/api/stats\<close> answers 500.
\<close>

theorem query_stats_labelled_row_raises:
  "query_stats False
     \<lparr>rows = [\<lparr>id' = 1, scan_id = ''A240101120000'', patient_name = ''Jane Doe'',
               label = ''Normal'', confidence = 0.8, inference_time = 0.01,
               image_path = ''/static/uploads/a.png'', timestamp = 101,
               true_label = Some ''Normal''\<rparr>],
      next_id = 2\<rparr> = Inl ProgrammingError \<and>
   api_stats False
     \<lparr>rows = [\<lparr>id' = 1, scan_id = ''A240101120000'', patient_name = ''Jane Doe'',
               label = ''Normal'', confidence = 0.8, inference_time = 0.01,
               image_path = ''/static/uploads/a.png'', timestamp = 101,
               true_label = Some ''Normal''\<rparr>],
      next_id = 2\<rparr> = (500, Json_error ''Failed to fetch stats'' None)"
  by (simp add: api_stats_def query_stats_def correct_avg_query_def sql_avg_def)

section \<open>The report\<close>

lemma resolve_image_Some:
  assumes "resolve_image e path_exists img = Some p"
  shows "path_exists p"
  using assms
  by (auto simp: resolve_image_def Let_def split: option.splits if_splits)

lemma resolve_image_None:
  assumes "\<forall>p. img = Some p \<longrightarrow>
      \<not> path_exists (lstrip_slash p) \<and>
      \<not> path_exists (path_join (UPLOAD_DIR e) (basename (lstrip_slash p)))"
  shows "resolve_image e path_exists img = None"
  using assms by (simp add: resolve_image_def Let_def split: option.splits)

lemma embed_image_cases:
  "embed_image image_raises use_path = [] \<or>
   (\<exists>p. use_path = Some p \<and> \<not> image_raises p \<and>
      embed_image image_raises use_path = [DrawImage p 40 380 300 300])"
  by (simp add: embed_image_def split: option.splits)

text \<open>
  Claim C9. Whatever the arguments of the request, whichever paths exist and whichever
  images can be read, \<open>download_report\<close> answers with the status 200 and the attachment
  \<open>xray_report.pdf\<close> of type \<open>application/pdf\<close>, a document of one page. The page has the
  title, the four lines and the closing note, and between them either nothing or one
  image, drawn into the box of 300 by 300 at (40, 380) from a path that exists and can
  be read. When the image path resolves neither as given nor as its basename under the
  upload directory, or when the image at the resolved path cannot be read, the page has
  no image.
\<close>

theorem download_report_always_pdf:
  "let a = download_report e path_exists image_raises data in
     a_status a = 200 \<and> a_as_attachment a \<and> a_download_name a = ''xray_report.pdf'' \<and>
     a_mimetype a = ''application/pdf'' \<and> length (a_pages a) = 1 \<and>
     (\<exists>imgs. a_pages a =
        [[SetFont ''Helvetica-Bold'' 20,
          DrawString 40 800 ''X-ray Analysis Report'',
          SetFont ''Helvetica'' 12,
          DrawString 40 780 (''Date: '' @ get_default data ''current_date'' (current_date e)),
          DrawString 40 760
            (''Patient: '' @ get_default data ''patient_name'' ''Uploaded Patient''),
          DrawString 40 740 (''Diagnosis: '' @ get_default data ''prediction'' ''Unknown''),
          DrawString 40 720 (''Confidence: '' @ get_default data ''accuracy'' ''N/A'' @ ''%'')]
         @ imgs
         @ [DrawString 40 360 (''Doctor'' @ [CHR 0x27] @ ''s Note:''),
            SetFont ''Helvetica-Oblique'' 12,
            DrawString 60 340
              ''Always consult a medical professional if you have any concerns.'']] \<and>
        (imgs = [] \<or>
         (\<exists>p. imgs = [DrawImage p 40 380 300 300] \<and> path_exists p \<and> \<not> image_raises p))) \<and>
     ((\<forall>p. data ''image_path'' = Some p \<longrightarrow>
          \<not> path_exists (lstrip_slash p) \<and>
          \<not> path_exists (path_join (UPLOAD_DIR e) (basename (lstrip_slash p)))) \<or>
      (\<forall>p. resolve_image e path_exists (data ''image_path'') = Some p \<longrightarrow> image_raises p)
      \<longrightarrow> filter is_image (concat (a_pages a)) = [])"
proof -
  let ?use = "resolve_image e path_exists (data ''image_path'')"
  let ?imgs = "embed_image image_raises ?use"
  have shape: "?imgs = [] \<or>
      (\<exists>p. ?imgs = [DrawImage p 40 380 300 300] \<and> path_exists p \<and> \<not> image_raises p)"
    using embed_image_cases [of image_raises ?use] resolve_image_Some [of e path_exists]
    by blast
  have none: "?imgs = []"
    if "(\<forall>p. data ''image_path'' = Some p \<longrightarrow>
          \<not> path_exists (lstrip_slash p) \<and>
          \<not> path_exists (path_join (UPLOAD_DIR e) (basename (lstrip_slash p)))) \<or>
        (\<forall>p. resolve_image e path_exists (data ''image_path'') = Some p \<longrightarrow> image_raises p)"
    using that
  proof
    assume "\<forall>p. data ''image_path'' = Some p \<longrightarrow>
          \<not> path_exists (lstrip_slash p) \<and>
          \<not> path_exists (path_join (UPLOAD_DIR e) (basename (lstrip_slash p)))"
    then have "?use = None" by (rule resolve_image_None)
    then show ?thesis by (simp add: embed_image_def)
  next
    assume "\<forall>p. resolve_image e path_exists (data ''image_path'') = Some p \<longrightarrow> image_raises p"
    then show ?thesis by (simp add: embed_image_def split: option.splits)
  qed
  have pages: "a_pages (download_report e path_exists image_raises data) =
        [[SetFont ''Helvetica-Bold'' 20,
          DrawString 40 800 ''X-ray Analysis Report'',
          SetFont ''Helvetica'' 12,
          DrawString 40 780 (''Date: '' @ get_default data ''current_date'' (current_date e)),
          DrawString 40 760
            (''Patient: '' @ get_default data ''patient_name'' ''Uploaded Patient''),
          DrawString 40 740 (''Diagnosis: '' @ get_default data ''prediction'' ''Unknown''),
          DrawString 40 720 (''Confidence: '' @ get_default data ''accuracy'' ''N/A'' @ ''%'')]
         @ ?imgs
         @ [DrawString 40 360 (''Doctor'' @ [CHR 0x27] @ ''s Note:''),
            SetFont ''Helvetica-Oblique'' 12,
            DrawString 60 340
              ''Always consult a medical professional if you have any concerns.'']]"
    by (simp add: download_report_def Let_def)
  have head: "a_status (download_report e path_exists image_raises data) = 200 \<and>
      a_as_attachment (download_report e path_exists image_raises data) \<and>
      a_download_name (download_report e path_exists image_raises data) = ''xray_report.pdf'' \<and>
      a_mimetype (download_report e path_exists image_raises data) = ''application/pdf''"
    by (simp add: download_report_def Let_def)
  have noimg: "filter is_image (concat (a_pages (download_report e path_exists image_raises data))) = []"
    if "?imgs = []"
    unfolding pages using that by simp
  show ?thesis
    unfolding Let_def using head pages shape none noimg by (auto simp del: append.simps)
qed

text \<open>
  A request that names an image which is nowhere on disk: the report is returned, one
  page, without an image.
\<close>

theorem download_report_always_pdf_witness:
  "a_status (download_report example_env (\<lambda>p. False) (\<lambda>p. False)
      [''image_path'' \<mapsto> ''/static/uploads/missing.png'', ''prediction'' \<mapsto> ''Normal'']) = 200 \<and>
   a_download_name (download_report example_env (\<lambda>p. False) (\<lambda>p. False)
      [''image_path'' \<mapsto> ''/static/uploads/missing.png'', ''prediction'' \<mapsto> ''Normal'']) =
     ''xray_report.pdf'' \<and>
   length (a_pages (download_report example_env (\<lambda>p. False) (\<lambda>p. False)
      [''image_path'' \<mapsto> ''/static/uploads/missing.png'', ''prediction'' \<mapsto> ''Normal''])) = 1 \<and>
   filter is_image (concat (a_pages (download_report example_env (\<lambda>p. False) (\<lambda>p. False)
      [''image_path'' \<mapsto> ''/static/uploads/missing.png'', ''prediction'' \<mapsto> ''Normal'']))) = []"
  using download_report_always_pdf [of example_env "\<lambda>p. False" "\<lambda>p. False"
      "[''image_path'' \<mapsto> ''/static/uploads/missing.png'', ''prediction'' \<mapsto> ''Normal'']"]
  unfolding Let_def by blast

section \<open>Demo mode\<close>

lemma demo_probability:
  assumes "model e = None" and "0 \<le> random_random e" and "random_random e < 1"
  shows "\<exists>p. predict_from_model e input = Inr p \<and> 0.75 \<le> p \<and> p \<le> 0.95"
  using assms by (simp add: predict_from_model_def random_uniform_def)

lemma demo_confidence_pct:
  assumes "0.75 \<le> p" and "p \<le> 0.95"
  shows "label_of p = ''Normal'' \<and> 75 \<le> confidence_pct_of p \<and> confidence_pct_of p \<le> 95"
proof -
  have l: "label_of p = ''Normal''"
    using assms by (simp add: label_of_def)
  have "of_int 7500 / 10 ^ 2 \<le> py_round (p * 100) 2 \<and> py_round (p * 100) 2 \<le> of_int 9500 / 10 ^ 2"
    using assms by (intro py_round_bounds) simp_all
  then show ?thesis
    using l by (simp add: confidence_pct_of_def confidence_of_def)
qed

lemma demo_pipeline:
  assumes "model e = None" and "0 \<le> random_random e" and "random_random e < 1"
    and "pipeline e rq files = (Inr r, files')"
  shows "r_label r = ''Normal'' \<and> 75 \<le> r_confidence_pct r \<and> r_confidence_pct r \<le> 95"
proof -
  from pipeline_Inr [OF assms(4)] obtain raw content pn saved input p where
    p: "predict_from_model e input = Inr p" and
    r: "r = \<lparr>r_id = ''A'' @ scan_stamp e, r_label = label_of p, r_confidence = confidence_of p,
          r_confidence_pct = confidence_pct_of p, r_image_path = ''/static/uploads/'' @ saved,
          r_patient_name = pn, r_inference_time = py_round (time_t1 e - time_t0 e) 4\<rparr>"
    by blast
  from demo_probability [OF assms(1-3), of input] p have "0.75 \<le> p \<and> p \<le> 0.95"
    by simp
  then show ?thesis
    using demo_confidence_pct [of p] by (simp add: r)
qed

text \<open>
  Claim C10. Without a model, for a draw of \<open>random.random()\<close> in [0, 1), the
  probability \<open>predict_from_model\<close> returns lies in [0.75, 0.95], and every response of
  \<open>predict\<close> that carries a prediction, as JSON or as the result page, has the label
  Normal, never Fractured, and a \<open>confidence_pct\<close> in [75, 95]. Floats are real numbers
  here.
\<close>

theorem demo_mode_always_normal:
  assumes "model e = None" and "0 \<le> random_random e" and "random_random e < 1"
  shows "(\<exists>p. predict_from_model e input = Inr p \<and> 0.75 \<le> p \<and> p \<le> 0.95) \<and>
     (\<forall>st r. fst (predict e rq s) = (st, Json_result r) \<longrightarrow>
        r_label r = ''Normal'' \<and> r_label r \<noteq> ''Fractured'' \<and>
        75 \<le> r_confidence_pct r \<and> r_confidence_pct r \<le> 95) \<and>
     (\<forall>st pr acc ip dn cd pn. fst (predict e rq s) = (st, Result_page pr acc ip dn cd pn) \<longrightarrow>
        pr = ''Normal'' \<and> pr \<noteq> ''Fractured'' \<and> 75 \<le> acc \<and> acc \<le> 95)"
proof (intro conjI allI impI)
  show "\<exists>p. predict_from_model e input = Inr p \<and> 0.75 \<le> p \<and> p \<le> 0.95"
    using assms by (rule demo_probability)
next
  fix st r
  assume "fst (predict e rq s) = (st, Json_result r)"
  then obtain files' where "pipeline e rq (fst s) = (Inr r, files')"
    using predict_Json_result by blast
  from demo_pipeline [OF assms this]
  show "r_label r = ''Normal''" and "r_label r \<noteq> ''Fractured''"
    and "75 \<le> r_confidence_pct r" and "r_confidence_pct r \<le> 95"
    by simp_all
next
  fix st pr acc ip dn cd pn
  assume "fst (predict e rq s) = (st, Result_page pr acc ip dn cd pn)"
  then obtain r files' where run: "pipeline e rq (fst s) = (Inr r, files')"
    and eq: "pr = r_label r" "acc = r_confidence_pct r"
    using predict_Result_page by blast
  from demo_pipeline [OF assms run] eq
  show "pr = ''Normal''" and "pr \<noteq> ''Fractured''" and "75 \<le> acc" and "acc \<le> 95"
    by simp_all
qed

text \<open>
  The example: no model, the draw 1/2. The probability is 0.85 and the JSON response
  carries Normal with \<open>confidence_pct\<close> 85.
\<close>

theorem demo_mode_always_normal_witness:
  "model example_env = None \<and> 0 \<le> random_random example_env \<and> random_random example_env < 1 \<and>
   predict_from_model example_env (Png ''RIFF'') = Inr 0.85 \<and>
   fst (predict example_env example_request (Map.empty, empty_db)) =
     (200, Json_result \<lparr>r_id = ''A240101120000'', r_label = ''Normal'', r_confidence = 0.85,
          r_confidence_pct = 85,
          r_image_path = ''/static/uploads/20240101120000000000_scan.png'',
          r_patient_name = ''Jane Doe'', r_inference_time = 0.25\<rparr>)"
proof -
  have h: "model example_env = None" "0 \<le> random_random example_env"
    "random_random example_env < 1"
    by (simp_all add: example_env_def)
  have run: "fst (predict example_env example_request (Map.empty, empty_db)) =
     (200, Json_result \<lparr>r_id = ''A240101120000'', r_label = ''Normal'', r_confidence = 0.85,
          r_confidence_pct = 85,
          r_image_path = ''/static/uploads/20240101120000000000_scan.png'',
          r_patient_name = ''Jane Doe'', r_inference_time = 0.25\<rparr>)"
    by (simp add: predict_def respond_def eval_defs)
  have p: "predict_from_model example_env (Png ''RIFF'') = Inr 0.85"
    by (simp add: predict_from_model_def random_uniform_def example_env_def)
  from demo_mode_always_normal [OF h, of "Png ''RIFF''" example_request "(Map.empty, empty_db)"]
  have "r_label \<lparr>r_id = ''A240101120000'', r_label = ''Normal'', r_confidence = 0.85,
          r_confidence_pct = 85,
          r_image_path = ''/static/uploads/20240101120000000000_scan.png'',
          r_patient_name = ''Jane Doe'', r_inference_time = 0.25\<rparr> = ''Normal''"
    using run by blast
  with h run p show ?thesis by simp
qed

end
